theory Spec2Isabelle
  imports Main
begin

section \<open>JavaScript values and closures of lib/index.js\<close>

text \<open>
  The module is written in continuation-passing style: every exported function takes a
  callback \<open>next\<close> and hands closures to its collaborators. A closure is represented by a
  constructor of \<open>cont\<close> carrying the variables it captures; a JavaScript value is a
  \<open>jsval\<close>. Objects are association lists from property names to values.
\<close>

text \<open>
  A key of the gossip cluster: the key \<open>'leader'\<close>, or the key that \<open>this.ok(name, username)\<close>
  derives from an operation name and an owner.
\<close>

datatype dkey = LeaderKey | OpKey string string

text \<open>
  What the variable \<open>connection\<close> refers to: a transport, or a cache object
  \<open>{it, cluster, key}\<close>, each by its reference in the node's store.
\<close>

datatype conn_ref = TransportRef nat | EntryRef nat

text \<open>
  The function values: a callback of the module's caller (\<open>Caller\<close>), the joined callback
  that \<open>callbackQueue.add\<close> returns for a key (\<open>Joined\<close>), and the five closures of the
  source under their own names, with the variables they capture: \<open>connectionCallback\<close>
  (operationKey, callback), \<open>receivedCredentials\<close> (connection, callback),
  \<open>regenerateOAuthToken\<close> (username, callback), \<open>getSMTPConnectionNodeId\<close> (username,
  options, next) and \<open>sendPreparedEmail\<close> (connection, next).
\<close>

datatype jsval =
    JUndefined
  | JNull
  | JBool bool
  | JStr string
  | JError string
  | JObj "(string \<times> jsval) list"
  | JFn cont
and cont =
    Caller nat
  | Joined dkey
  | ConnectionCallback dkey jsval
  | ReceivedCredentials conn_ref jsval
  | RegenerateOAuthToken string jsval
  | GetSMTPConnectionNodeId string jsval jsval
  | SendPreparedEmail "conn_ref option" jsval

type_synonym obj = "(string \<times> jsval) list"

text \<open>Truthiness, as tested by \<open>if (x)\<close>, \<open>!x\<close> and \<open>x && y\<close>.\<close>

fun truthy :: "jsval \<Rightarrow> bool" where
  "truthy JUndefined = False"
| "truthy JNull = False"
| "truthy (JBool b) = b"
| "truthy (JStr s) = (s \<noteq> [])"
| "truthy (JError m) = True"
| "truthy (JObj ps) = True"
| "truthy (JFn c) = True"

text \<open>Property read \<open>o.name\<close> on an object: a missing property reads \<open>undefined\<close>.\<close>

definition get_prop :: "obj \<Rightarrow> string \<Rightarrow> jsval" where
  "get_prop ps name = (case map_of ps name of None \<Rightarrow> JUndefined | Some v \<Rightarrow> v)"

text \<open>Positional argument \<open>i\<close> of a call: a missing argument reads \<open>undefined\<close>.\<close>

definition arg :: "nat \<Rightarrow> jsval list \<Rightarrow> jsval" where
  "arg i args = (if i < length args then args ! i else JUndefined)"

text \<open>
  What the module asks of the outside world. Every call of a function value in the source
  is in tail position, so a handler returns the calls it makes as a list of effects.
\<close>

datatype effect =
    Invoke cont "jsval list"
  | Throw string
  | SetImmediate jsval "jsval list"
  | RemoteCall jsval string "jsval list" jsval
  | MethodCall string "jsval list"
  | GenerateToken string jsval
  | TransportSendMail nat jsval jsval
  | Close nat

text \<open>A plain call \<open>f(args)\<close>: calling a value that is not a function throws a TypeError.\<close>

fun call :: "jsval \<Rightarrow> jsval list \<Rightarrow> effect" where
  "call (JFn c) args = Invoke c args"
| "call v args = Throw ''TypeError: not a function''"

text \<open>
  Property read \<open>v.name\<close> on an arbitrary value: reading a property of \<open>undefined\<close> or
  \<open>null\<close> throws a TypeError (\<open>None\<close>); none of the names the module reads exists on a
  string, boolean, error or function, so there the read gives \<open>undefined\<close>.
\<close>

fun member_of :: "jsval \<Rightarrow> string \<Rightarrow> jsval option" where
  "member_of JUndefined name = None"
| "member_of JNull name = None"
| "member_of (JObj ps) name = Some (get_prop ps name)"
| "member_of v name = Some JUndefined"

definition get_member :: "jsval \<Rightarrow> string \<Rightarrow> jsval" where
  "get_member v name = (case member_of v name of None \<Rightarrow> JUndefined | Some x \<Rightarrow> x)"

fun props_of :: "jsval \<Rightarrow> obj" where
  "props_of (JObj ps) = ps"
| "props_of v = []"

text \<open>Property write \<open>o[k] = v\<close>: an existing property keeps its place, a new one is appended.\<close>

fun set_prop :: "string \<Rightarrow> jsval \<Rightarrow> obj \<Rightarrow> obj" where
  "set_prop k v [] = [(k, v)]"
| "set_prop k v (p # ps) = (if fst p = k then (k, v) # ps else p # set_prop k v ps)"

text \<open>lodash \<open>_.extend(dst, src)\<close> and \<open>_.pick(o, names)\<close>.\<close>

definition extend_obj :: "obj \<Rightarrow> obj \<Rightarrow> obj" where
  "extend_obj dst src = foldl (\<lambda>acc p. set_prop (fst p) (snd p) acc) dst src"

definition pick :: "obj \<Rightarrow> string list \<Rightarrow> obj" where
  "pick ps names =
     concat (map (\<lambda>n. case map_of ps n of None \<Rightarrow> [] | Some v \<Rightarrow> [(n, v)]) names)"

section \<open>The state of one node\<close>

text \<open>
  A pooled transport made by \<open>nodemailer.createTransport(smtpPool(_.extend(wellknown(p),
  {maxConnections: 2, maxMessages: 100})))\<close>, with the \<open>auth\<close> property the module assigns.
\<close>

record transport =
  transport_service :: jsval
  transport_maxConnections :: nat
  transport_maxMessages :: nat
  transport_auth :: jsval

text \<open>
  The object \<open>{it, cluster, key}\<close> stored in \<open>connectionCache\<close>. \<open>cluster\<close> is always the
  node's one gossip cluster and is left out; \<open>conn_auth\<close> is the property \<open>auth\<close> of this
  object, \<open>undefined\<close> until something assigns it.
\<close>

record conn_entry =
  conn_it :: nat
  conn_key :: dkey
  conn_auth :: jsval

text \<open>
  The XOAuth2 generator, with the two properties the module reads: \<open>token\<close>, and \<open>timer\<close>,
  a time in milliseconds that is \<open>None\<close> while the property is \<open>undefined\<close>.
\<close>

record generator =
  generator_options :: obj
  token :: jsval
  timer :: "int option"

record cred_entry =
  cred_it :: generator
  cred_key :: dkey

text \<open>
  The dispatcher object \<open>this\<close> together with the module's globals. Transports and cache
  objects live in a store indexed by reference, since closures keep references to them;
  \<open>next_ref\<close> is the next free reference. \<open>online\<close> is what \<open>this.peerOnline\<close> answers,
  \<open>host_function name\<close> whether \<open>typeof this[name] === 'function'\<close>, and
  \<open>oauthCredentials\<close> the module variable \<open>_oauthCredentials\<close>.
\<close>

record node =
  self_id :: string
  cluster :: "dkey \<Rightarrow> jsval"
  online :: "string \<Rightarrow> bool"
  host_function :: "string \<Rightarrow> bool"
  callbackQueue :: "dkey \<rightharpoonup> jsval list"
  connectionCache :: "(string \<times> nat) list"
  credentialsCache :: "(string \<times> cred_entry) list"
  entries :: "nat \<Rightarrow> conn_entry"
  transports :: "nat \<Rightarrow> transport"
  next_ref :: nat
  oauthCredentials :: "string \<Rightarrow> obj"

text \<open>The result of \<open>this.randomPeerOrSelf()\<close>, an input of the model.\<close>

datatype peer = This | Peer string

section \<open>Collaborators\<close>

text \<open>
  Modelled from the spec: the dispatcher's key derivation \<open>this.ok\<close> is not in this
  repository. An OperationKey is derived from (operation name, OwnerKey) so that keys of
  different operations or owners never collide.
\<close>

definition ok :: "string \<Rightarrow> string \<Rightarrow> dkey" where
  "ok name username = OpKey name username"

text \<open>
  Modelled from the spec: the dispatcher's \<open>callbackQueue\<close> is not in this repository.
  \<open>add\<close> is the registration of section 4.1: with no operation pending for the key it
  marks one pending and returns the joined callback; with one pending it queues the
  callback and returns a falsy value. Calling the joined callback invokes all queued
  callbacks, in registration order, with the same arguments and clears the record; a second
  resolution finds nothing to do.
\<close>

definition callbackQueue_add :: "dkey \<Rightarrow> jsval \<Rightarrow> node \<Rightarrow> jsval \<times> node" where
  "callbackQueue_add k cb st =
     (case callbackQueue st k of
        None \<Rightarrow> (JFn (Joined k), st\<lparr>callbackQueue := (callbackQueue st)(k \<mapsto> [cb])\<rparr>)
      | Some waiting \<Rightarrow>
          (JBool False, st\<lparr>callbackQueue := (callbackQueue st)(k \<mapsto> waiting @ [cb])\<rparr>))"

definition callbackQueue_resolve :: "dkey \<Rightarrow> jsval list \<Rightarrow> node \<Rightarrow> node \<times> effect list" where
  "callbackQueue_resolve k args st =
     (case callbackQueue st k of
        None \<Rightarrow> (st, [])
      | Some waiting \<Rightarrow>
          (st\<lparr>callbackQueue := (callbackQueue st)(k := None)\<rparr>,
           map (\<lambda>cb. call cb args) waiting))"

text \<open>
  \<open>cluster.set(key, value)\<close> on the gossip cluster; \<open>cluster.get(key)\<close> is \<open>cluster st key\<close>,
  and a key reads absent when its value is \<open>null\<close> or was never set.
\<close>

definition cluster_set :: "dkey \<Rightarrow> jsval \<Rightarrow> node \<Rightarrow> node" where
  "cluster_set k v st = st\<lparr>cluster := (cluster st)(k := v)\<rparr>"

definition absent :: "jsval \<Rightarrow> bool" where
  "absent v = (v = JNull \<or> v = JUndefined)"

text \<open>
  \<open>this.peerOnline(nodeId)\<close>, only ever asked about a truthy value; a value that is not a
  node id names no peer.
\<close>

definition peerOnline :: "node \<Rightarrow> jsval \<Rightarrow> bool" where
  "peerOnline st v = (case v of JStr n \<Rightarrow> online st n | _ \<Rightarrow> False)"

text \<open>
  Modelled from the spec: the lru-cache package is not in this repository. A cache is a
  bounded mapping, most recently used entry first; a read refreshes recency, a write
  inserts or replaces and hands the entries pushed out by the bound, least recently used
  first, to the disposal hook.
\<close>

definition lru_get :: "string \<Rightarrow> (string \<times> 'v) list \<Rightarrow> 'v option \<times> (string \<times> 'v) list" where
  "lru_get k c =
     (case map_of c k of
        None \<Rightarrow> (None, c)
      | Some v \<Rightarrow> (Some v, (k, v) # filter (\<lambda>p. fst p \<noteq> k) c))"

definition lru_set ::
  "nat \<Rightarrow> string \<Rightarrow> 'v \<Rightarrow> (string \<times> 'v) list \<Rightarrow> (string \<times> 'v) list \<times> (string \<times> 'v) list" where
  "lru_set mx k v c =
     (let c' = (k, v) # filter (\<lambda>p. fst p \<noteq> k) c in (take mx c', rev (drop mx c')))"

fun dispose_all ::
  "(string \<Rightarrow> 'v \<Rightarrow> node \<Rightarrow> node \<times> effect list) \<Rightarrow> (string \<times> 'v) list \<Rightarrow> node
     \<Rightarrow> node \<times> effect list" where
  "dispose_all dispose [] st = (st, [])"
| "dispose_all dispose (p # ps) st =
     (case dispose (fst p) (snd p) st of
        (st1, effs1) \<Rightarrow>
          (case dispose_all dispose ps st1 of (st2, effs2) \<Rightarrow> (st2, effs1 @ effs2)))"

text \<open>
  Modelled from the spec: the xoauth2 package is not in this repository. A generator made
  by \<open>createXOAuth2Generator\<close> keeps its options and has not generated a token yet.
\<close>

definition createXOAuth2Generator :: "obj \<Rightarrow> generator" where
  "createXOAuth2Generator opts =
     \<lparr>generator_options = opts, token = JUndefined, timer = None\<rparr>"

section \<open>The two caches of lib/index.js\<close>

text \<open>The \<open>dispose\<close> hooks of \<open>connectionCache\<close> and \<open>credentialsCache\<close>.\<close>

definition connectionCache_dispose :: "string \<Rightarrow> nat \<Rightarrow> node \<Rightarrow> node \<times> effect list" where
  "connectionCache_dispose k w st =
     (let connection = entries st w in
        (cluster_set (conn_key connection) JNull st, [Close (conn_it connection)]))"

definition credentialsCache_dispose ::
  "string \<Rightarrow> cred_entry \<Rightarrow> node \<Rightarrow> node \<times> effect list" where
  "credentialsCache_dispose k credentials st =
     (cluster_set (cred_key credentials) JNull st, [])"

definition connectionCache_get :: "string \<Rightarrow> node \<Rightarrow> nat option \<times> node" where
  "connectionCache_get username st =
     (case lru_get username (connectionCache st) of
        (found, c) \<Rightarrow> (found, st\<lparr>connectionCache := c\<rparr>))"

definition connectionCache_set :: "string \<Rightarrow> nat \<Rightarrow> node \<Rightarrow> node \<times> effect list" where
  "connectionCache_set username w st =
     (case lru_set 1000 username w (connectionCache st) of
        (c, evicted) \<Rightarrow> dispose_all connectionCache_dispose evicted (st\<lparr>connectionCache := c\<rparr>))"

definition credentialsCache_get :: "string \<Rightarrow> node \<Rightarrow> cred_entry option \<times> node" where
  "credentialsCache_get username st =
     (case lru_get username (credentialsCache st) of
        (found, c) \<Rightarrow> (found, st\<lparr>credentialsCache := c\<rparr>))"

definition credentialsCache_set :: "string \<Rightarrow> cred_entry \<Rightarrow> node \<Rightarrow> node \<times> effect list" where
  "credentialsCache_set username e st =
     (case lru_set 10000 username e (credentialsCache st) of
        (c, evicted) \<Rightarrow>
          dispose_all credentialsCache_dispose evicted (st\<lparr>credentialsCache := c\<rparr>))"

text \<open>Allocation of a transport and of a cache object in the store.\<close>

definition createTransport :: "jsval \<Rightarrow> node \<Rightarrow> nat \<times> node" where
  "createTransport service st =
     (next_ref st,
      st\<lparr>transports := (transports st)(next_ref st :=
            \<lparr>transport_service = service, transport_maxConnections = 2,
             transport_maxMessages = 100, transport_auth = JUndefined\<rparr>),
         next_ref := Suc (next_ref st)\<rparr>)"

definition new_entry :: "conn_entry \<Rightarrow> node \<Rightarrow> nat \<times> node" where
  "new_entry e st =
     (next_ref st, st\<lparr>entries := (entries st)(next_ref st := e), next_ref := Suc (next_ref st)\<rparr>)"

text \<open>\<open>connection.auth = v\<close>, on whichever object the variable \<open>connection\<close> refers to.\<close>

fun assign_auth :: "conn_ref \<Rightarrow> jsval \<Rightarrow> node \<Rightarrow> node" where
  "assign_auth (TransportRef t) v st =
     st\<lparr>transports := (transports st)(t := (transports st t)\<lparr>transport_auth := v\<rparr>)\<rparr>"
| "assign_auth (EntryRef w) v st =
     st\<lparr>entries := (entries st)(w := (entries st w)\<lparr>conn_auth := v\<rparr>)\<rparr>"

text \<open>
  \<open>connection.sendMail(email, next)\<close>: only a transport has the method; \<open>undefined\<close> and
  the cache object \<open>{it, cluster, key}\<close> do not.
\<close>

fun connection_sendMail :: "conn_ref option \<Rightarrow> jsval \<Rightarrow> jsval \<Rightarrow> effect" where
  "connection_sendMail (Some (TransportRef t)) email next = TransportSendMail t email next"
| "connection_sendMail (Some (EntryRef w)) email next =
     Throw ''TypeError: connection.sendMail is not a function''"
| "connection_sendMail None email next =
     Throw ''TypeError: cannot read property sendMail of undefined''"

section \<open>Credentials\<close>

text \<open>The freshness test \<open>!timer || timer > Date.now() - 1000 * 60 * 5\<close>.\<close>

fun timer_fresh :: "int option \<Rightarrow> int \<Rightarrow> bool" where
  "timer_fresh None now = True"
| "timer_fresh (Some t) now = (t = 0 \<or> now - 1000 * 60 * 5 < t)"

text \<open>The closure \<open>regenerateOAuthToken(err, token)\<close> of \<open>generateOAuthCredentials\<close>.\<close>

definition regenerateOAuthToken ::
  "string \<Rightarrow> jsval \<Rightarrow> jsval list \<Rightarrow> node \<Rightarrow> node \<times> effect list" where
  "regenerateOAuthToken username callback args st =
     (let err = arg 0 args; tok = arg 1 args in
        if truthy err then (st, [call callback [err]])
        else (st, [call callback [JNull, JObj [(''user'', JStr username), (''xoauth2'', tok)]]]))"

text \<open>
  \<open>exports.generateOAuthCredentials\<close>; \<open>now\<close> is the value of \<open>Date.now()\<close>. The key of
  \<open>_oauthCredentials[provider]\<close> is the provider string; any other provider value finds
  no secrets.
\<close>

definition generateOAuthCredentials ::
  "int \<Rightarrow> string \<Rightarrow> jsval \<Rightarrow> jsval \<Rightarrow> node \<Rightarrow> node \<times> effect list" where
  "generateOAuthCredentials now username credentials next st =
     (let operationKey = ok ''generateOAuthCredentials'' username in
      case callbackQueue_add operationKey next st of
        (callback, st1) \<Rightarrow>
          if \<not> truthy callback then (st1, [])
          else
            (case member_of credentials ''provider'' of
               None \<Rightarrow> (st1, [Throw ''TypeError: cannot read property provider''])
             | Some provider \<Rightarrow>
                 (case credentialsCache_get username st1 of
                    (cached, st2) \<Rightarrow>
                      (case
                         (case cached of
                            None \<Rightarrow>
                              (let g = createXOAuth2Generator
                                     (extend_obj
                                        [(''user'', JStr username),
                                         (''refreshToken'', get_member credentials ''refreshToken'')]
                                        (case provider of
                                           JStr p \<Rightarrow> oauthCredentials st2 p
                                         | _ \<Rightarrow> []))
                               in case credentialsCache_set username
                                         \<lparr>cred_it = g, cred_key = operationKey\<rparr> st2 of
                                    (st3, effs) \<Rightarrow> (g, st3, effs))
                          | Some e \<Rightarrow> (cred_it e, st2, []))
                       of
                         (xoauth2Instance, st3, effs) \<Rightarrow>
                           (let st4 = cluster_set operationKey (JStr (self_id st3)) st3
                            in if truthy (token xoauth2Instance)
                                  \<and> timer_fresh (timer xoauth2Instance) now
                               then
                                 (st4, effs @
                                   [call callback
                                      [JNull,
                                       JObj [(''user'', JStr username),
                                             (''xoauth2'', token xoauth2Instance)]]])
                               else
                                 (st4, effs @
                                   [GenerateToken username
                                      (JFn (RegenerateOAuthToken username callback))]))))))"

text \<open>
  \<open>exports.getSMTPCredentials\<close>; \<open>peerNode\<close> is what \<open>this.randomPeerOrSelf()\<close> returns
  if it is asked. \<open>this.generateGmailCredentials\<close> is a method that this module does not
  define: the call is handed to the host object as a \<open>MethodCall\<close>.
\<close>

definition getSMTPCredentials ::
  "peer \<Rightarrow> string \<Rightarrow> jsval \<Rightarrow> jsval \<Rightarrow> node \<Rightarrow> node \<times> effect list" where
  "getSMTPCredentials peerNode username credentials next st =
     (case member_of credentials ''provider'' of
        None \<Rightarrow> (st, [Throw ''TypeError: cannot read property provider''])
      | Some provider \<Rightarrow>
          if provider = JStr ''gmail'' then
            (case credentialsCache_get username st of
               (xoauth2Instance, st1) \<Rightarrow>
                 if xoauth2Instance \<noteq> None then
                   (st1, [MethodCall ''generateGmailCredentials''
                            [JStr username, credentials, next]])
                 else
                   (let oauthCredentialsKey = ok ''generateOAuthCredentials'' username;
                        credentialsNodeId = cluster st1 oauthCredentialsKey
                    in if truthy credentialsNodeId \<and> peerOnline st1 credentialsNodeId then
                         (st1, [RemoteCall credentialsNodeId ''generateOAuthCredentials''
                                  [JStr username, credentials] next])
                       else
                         (let currentLeader = cluster st1 LeaderKey
                          in if currentLeader \<noteq> JStr (self_id st1) then
                               (st1, [RemoteCall currentLeader ''getSMTPCredentials''
                                        [JStr username, credentials] next])
                             else
                               (let operationKey = ok ''getSMTPCredentials'' username in
                                case callbackQueue_add operationKey next st1 of
                                  (callback, st2) \<Rightarrow>
                                    (case peerNode of
                                       Peer n \<Rightarrow>
                                         (st2, [RemoteCall (JStr n) ''generateOAuthCredentials''
                                                  [JStr username, credentials] callback])
                                     | This \<Rightarrow>
                                         (st2, [MethodCall ''generateGmailCredentials''
                                                  [JStr username, credentials, callback]]))))))
          else if provider = JStr ''yahoo'' \<or> provider = JStr ''aol'' then
            (st, [SetImmediate next [JObj (pick (props_of credentials) [''user'', ''pass''])]])
          else (st, [SetImmediate next [JError ''passed provider is not supported'']]))"

section \<open>Connections\<close>

text \<open>
  The closure \<open>receivedCredentials(err, authenticationOptions)\<close> of
  \<open>establishSMTPConnection\<close>. It is an ordinary function, so its \<open>this\<close> is whatever its
  caller supplies: \<open>undefined\<close> for a plain call in strict mode.
\<close>

definition receivedCredentials ::
  "conn_ref \<Rightarrow> jsval \<Rightarrow> jsval \<Rightarrow> jsval list \<Rightarrow> node \<Rightarrow> node \<times> effect list" where
  "receivedCredentials connection callback this args st =
     (let err = arg 0 args; authenticationOptions = arg 1 args in
        if truthy err then (st, [call callback [err]])
        else
          (let st1 = assign_auth connection authenticationOptions st in
           case member_of this ''id'' of
             None \<Rightarrow> (st1, [Throw ''TypeError: cannot read property id''])
           | Some this_id \<Rightarrow> (st1, [call callback [JNull, this_id]])))"

text \<open>\<open>exports.establishSMTPConnection\<close>.\<close>

definition establishSMTPConnection ::
  "peer \<Rightarrow> string \<Rightarrow> jsval \<Rightarrow> jsval \<Rightarrow> node \<Rightarrow> node \<times> effect list" where
  "establishSMTPConnection credPeer username credentials next st =
     (let operationKey = ok ''establishSMTPConnection'' username in
      case callbackQueue_add operationKey next st of
        (callback, st1) \<Rightarrow>
          if \<not> truthy callback then (st1, [])
          else
            (case connectionCache_get username st1 of
               (cached, st2) \<Rightarrow>
                 (case cached of
                    Some w \<Rightarrow>
                      getSMTPCredentials credPeer username credentials
                        (JFn (ReceivedCredentials (EntryRef w) callback)) st2
                  | None \<Rightarrow>
                      (case member_of credentials ''provider'' of
                         None \<Rightarrow> (st2, [Throw ''TypeError: cannot read property provider''])
                       | Some provider \<Rightarrow>
                           (case createTransport provider st2 of
                              (t, st3) \<Rightarrow>
                                (case new_entry
                                        \<lparr>conn_it = t,
                                         conn_key = ok ''getSMTPConnection'' username,
                                         conn_auth = JUndefined\<rparr> st3 of
                                   (w, st4) \<Rightarrow>
                                     (case connectionCache_set username w st4 of
                                        (st5, effs) \<Rightarrow>
                                          (case getSMTPCredentials credPeer username credentials
                                                  (JFn (ReceivedCredentials (TransportRef t) callback))
                                                  st5 of
                                             (st6, effs') \<Rightarrow> (st6, effs @ effs')))))))))"

text \<open>The closure \<open>connectionCallback(err, nodeId)\<close> of \<open>getSMTPConnection\<close>.\<close>

definition connectionCallback ::
  "dkey \<Rightarrow> jsval \<Rightarrow> jsval list \<Rightarrow> node \<Rightarrow> node \<times> effect list" where
  "connectionCallback operationKey callback args st =
     (let err = arg 0 args; nodeId = arg 1 args in
        if truthy err then (st, [call callback [err]])
        else
          (cluster_set operationKey nodeId st, [call callback [JNull, nodeId]]))"

text \<open>
  \<open>exports.getSMTPConnection\<close>; \<open>peerNode\<close> is the result of the \<open>randomPeerOrSelf\<close> call
  of this function and \<open>credPeer\<close> that of the one in \<open>getSMTPCredentials\<close>.
\<close>

definition getSMTPConnection ::
  "peer \<Rightarrow> peer \<Rightarrow> string \<Rightarrow> jsval \<Rightarrow> jsval \<Rightarrow> jsval \<Rightarrow> node \<Rightarrow> node \<times> effect list" where
  "getSMTPConnection peerNode credPeer username credentials force next st =
     (let currentLeader = cluster st LeaderKey;
          operationKey = ok ''getSMTPConnection'' username
      in if truthy force then
           (case callbackQueue_add operationKey next st of
              (callback, st1) \<Rightarrow>
                if \<not> truthy callback then (st1, [])
                else establishSMTPConnection credPeer username credentials
                       (JFn (ConnectionCallback operationKey callback)) st1)
         else if currentLeader \<noteq> JStr (self_id st) then
           (st, [RemoteCall currentLeader ''getSMTPConnection''
                   [JStr username, credentials, JBool False] next])
         else
           (let smtpNodeId = cluster st operationKey
            in if truthy smtpNodeId \<and> peerOnline st smtpNodeId then
                 (st, [call next [JNull, smtpNodeId]])
               else if smtpNodeId = JStr (self_id st) then
                 establishSMTPConnection credPeer username credentials next st
               else
                 (case callbackQueue_add operationKey next st of
                    (callback, st1) \<Rightarrow>
                      (case peerNode of
                         Peer n \<Rightarrow>
                           (st1, [RemoteCall (JStr n) ''establishSMTPConnection''
                                    [JStr username, credentials, JBool True]
                                    (JFn (ConnectionCallback operationKey callback))])
                       | This \<Rightarrow>
                           establishSMTPConnection credPeer username credentials
                             (JFn (ConnectionCallback operationKey callback)) st1))))"

section \<open>Sending\<close>

text \<open>The closure \<open>sendPreparedEmail(err, email)\<close>.\<close>

definition sendPreparedEmail ::
  "conn_ref option \<Rightarrow> jsval \<Rightarrow> jsval list \<Rightarrow> node \<Rightarrow> node \<times> effect list" where
  "sendPreparedEmail connection next args st =
     (let err = arg 0 args; email = arg 1 args in
        if truthy err then (st, [call next [err]])
        else (st, [connection_sendMail connection email next]))"

text \<open>\<open>typeof self[name] === 'function'\<close>, for the value of \<open>prepareEmailFunctionName\<close>.\<close>

definition is_host_function :: "node \<Rightarrow> jsval \<Rightarrow> bool" where
  "is_host_function st name = (case name of JStr n \<Rightarrow> host_function st n | _ \<Rightarrow> False)"

text \<open>
  The closure \<open>getSMTPConnectionNodeId(err, nodeId)\<close> of \<open>sendMail\<close>. The variable
  \<open>connection\<close> is what \<open>connectionCache.get\<close> returned: a cache object or \<open>undefined\<close>.
  The test \<open>!name || typeof self[name] !== 'function'\<close> is written as the negation of
  the conjunction.
\<close>

definition getSMTPConnectionNodeId ::
  "string \<Rightarrow> jsval \<Rightarrow> jsval \<Rightarrow> jsval list \<Rightarrow> node \<Rightarrow> node \<times> effect list" where
  "getSMTPConnectionNodeId username options next args st =
     (let err = arg 0 args; nodeId = arg 1 args in
        if truthy err then (st, [call next [err]])
        else if JStr (self_id st) \<noteq> nodeId then
          (st, [RemoteCall nodeId ''sendMail'' [JStr username, options] next])
        else
          (case connectionCache_get username st of
             (cached, st1) \<Rightarrow>
               (let connection = map_option EntryRef cached;
                    prepareEmailFunctionName = get_member options ''prepareEmailFunctionName'';
                    email = get_member options ''email''
                in if \<not> (truthy prepareEmailFunctionName
                           \<and> is_host_function st1 prepareEmailFunctionName) then
                     (st1, [connection_sendMail connection email next])
                   else
                     (st1, [MethodCall (case prepareEmailFunctionName of JStr n \<Rightarrow> n | _ \<Rightarrow> [])
                              [JStr username, email,
                               JFn (SendPreparedEmail connection next)]]))))"

text \<open>
  \<open>exports.sendMail\<close>. The call in the source is
  \<open>this.getSMTPConnection(username, options.credentials, function getSMTPConnectionNodeId ...)\<close>:
  three arguments, so the closure arrives as \<open>force\<close> and \<open>next\<close> is \<open>undefined\<close>.
\<close>

definition sendMail ::
  "peer \<Rightarrow> peer \<Rightarrow> string \<Rightarrow> jsval \<Rightarrow> jsval \<Rightarrow> node \<Rightarrow> node \<times> effect list" where
  "sendMail peerNode credPeer username options next st =
     (case member_of options ''credentials'' of
        None \<Rightarrow> (st, [Throw ''TypeError: cannot read property credentials''])
      | Some credentials \<Rightarrow>
          getSMTPConnection peerNode credPeer username credentials
            (JFn (GetSMTPConnectionNodeId username options next)) JUndefined st)"

section \<open>Calling a closure\<close>

text \<open>
  What runs when a function value of the module is called with receiver \<open>this\<close> and
  arguments \<open>args\<close>. A \<open>Caller\<close> callback belongs to the code that called the module.
\<close>

fun apply_cont :: "cont \<Rightarrow> jsval \<Rightarrow> jsval list \<Rightarrow> node \<Rightarrow> node \<times> effect list" where
  "apply_cont (Caller n) this args st = (st, [])"
| "apply_cont (Joined k) this args st = callbackQueue_resolve k args st"
| "apply_cont (ConnectionCallback k callback) this args st =
     connectionCallback k callback args st"
| "apply_cont (ReceivedCredentials connection callback) this args st =
     receivedCredentials connection callback this args st"
| "apply_cont (RegenerateOAuthToken username callback) this args st =
     regenerateOAuthToken username callback args st"
| "apply_cont (GetSMTPConnectionNodeId username options next) this args st =
     getSMTPConnectionNodeId username options next args st"
| "apply_cont (SendPreparedEmail connection next) this args st =
     sendPreparedEmail connection next args st"

section \<open>init and the remote-call registry\<close>

text \<open>
  The properties that lib/index.js assigns on \<open>exports\<close>. Reading any other property of
  \<open>exports\<close> gives \<open>undefined\<close>, here \<open>None\<close>.
\<close>

datatype fn =
    F_getSMTPConnection
  | F_establishSMTPConnection
  | F_sendMail
  | F_generateOAuthCredentials
  | F_getSMTPCredentials
  | F_init

definition exports :: "string \<Rightarrow> fn option" where
  "exports name =
     (if name = ''getSMTPConnection'' then Some F_getSMTPConnection
      else if name = ''establishSMTPConnection'' then Some F_establishSMTPConnection
      else if name = ''sendMail'' then Some F_sendMail
      else if name = ''generateOAuthCredentials'' then Some F_generateOAuthCredentials
      else if name = ''getSMTPCredentials'' then Some F_getSMTPCredentials
      else if name = ''init'' then Some F_init
      else None)"

text \<open>
  \<open>Dispatcher.attachRemoteCall(name, f)\<close> binds \<open>name\<close> to the value it is given; the value
  is \<open>None\<close> when the argument expression evaluated to \<open>undefined\<close>. A name that was never
  attached is not in the domain of the registry.
\<close>

type_synonym registry = "string \<rightharpoonup> fn option"

definition attachRemoteCall :: "string \<Rightarrow> fn option \<Rightarrow> registry \<Rightarrow> registry" where
  "attachRemoteCall name f reg = reg(name \<mapsto> f)"

text \<open>The five \<open>attachRemoteCall\<close> lines of \<open>init\<close>, in order.\<close>

definition init_registry :: "registry \<Rightarrow> registry" where
  "init_registry reg =
     attachRemoteCall ''sendMail'' (exports ''sendMail'')
      (attachRemoteCall ''generateOAuthCredentials'' (exports ''generateGmailCredentials'')
       (attachRemoteCall ''getSMTPCredentials'' (exports ''getSMTPCredentials'')
        (attachRemoteCall ''establishSMTPConnection'' (exports ''establishSMTPConnection'')
         (attachRemoteCall ''getSMTPConnection'' (exports ''getSMTPConnection'') reg))))"

section \<open>A concrete node\<close>

text \<open>
  A node that has just started: nothing cached, nothing pending, an empty store. It knows
  the leader and which peers are online.
\<close>

definition fresh_node :: "string \<Rightarrow> string \<Rightarrow> string list \<Rightarrow> node" where
  "fresh_node nid leader live =
     \<lparr>self_id = nid,
      cluster = (\<lambda>k. JUndefined)(LeaderKey := JStr leader),
      online = (\<lambda>n. n \<in> set live),
      host_function = (\<lambda>n. False),
      callbackQueue = Map.empty,
      connectionCache = [],
      credentialsCache = [],
      entries = (\<lambda>a. \<lparr>conn_it = 0, conn_key = LeaderKey, conn_auth = JUndefined\<rparr>),
      transports = (\<lambda>a. \<lparr>transport_service = JUndefined, transport_maxConnections = 0,
                           transport_maxMessages = 0, transport_auth = JUndefined\<rparr>),
      next_ref = 0,
      oauthCredentials = (\<lambda>p. [])\<rparr>"

section \<open>Scenarios\<close>

text \<open>Credentials and options used in the scenarios below.\<close>

definition yahoo :: jsval where
  "yahoo = JObj [(''provider'', JStr ''yahoo''), (''user'', JStr ''u''), (''pass'', JStr ''p'')]"

definition gmail :: jsval where
  "gmail = JObj [(''provider'', JStr ''gmail''), (''refreshToken'', JStr ''r'')]"

definition picked :: jsval where
  "picked = JObj [(''user'', JStr ''u''), (''pass'', JStr ''p'')]"

definition connection_key :: dkey where
  "connection_key = ok ''getSMTPConnection'' ''u''"

definition establish_key :: dkey where
  "establish_key = ok ''establishSMTPConnection'' ''u''"

definition credentials_key :: dkey where
  "credentials_key = ok ''getSMTPCredentials'' ''u''"

definition generate_key :: dkey where
  "generate_key = ok ''generateOAuthCredentials'' ''u''"

text \<open>
  Two acquisition requests for owner \<open>u\<close> reach the leader \<open>n0\<close> one after the other, before
  any establishment has answered; \<open>randomPeerOrSelf\<close> gives \<open>n1\<close> for the first and \<open>n2\<close>
  for the second. Then the two answers arrive, \<open>n1\<close>'s first.
\<close>

definition leader0 :: node where
  "leader0 = fresh_node ''n0'' ''n0'' [''n1'', ''n2'']"

definition race1 :: "node \<times> effect list" where
  "race1 = getSMTPConnection (Peer ''n1'') This ''u'' yahoo (JBool False) (JFn (Caller 1)) leader0"

definition race2 :: "node \<times> effect list" where
  "race2 =
     getSMTPConnection (Peer ''n2'') This ''u'' yahoo (JBool False) (JFn (Caller 2)) (fst race1)"

definition race_reply1 :: "node \<times> effect list" where
  "race_reply1 =
     apply_cont (ConnectionCallback connection_key (JFn (Joined connection_key))) JUndefined
       [JNull, JStr ''n1''] (fst race2)"

definition race_resolved1 :: "node \<times> effect list" where
  "race_resolved1 =
     apply_cont (Joined connection_key) JUndefined [JNull, JStr ''n1''] (fst race_reply1)"

definition race_reply2 :: "node \<times> effect list" where
  "race_reply2 =
     apply_cont (ConnectionCallback connection_key (JBool False)) JUndefined
       [JNull, JStr ''n2''] (fst race_resolved1)"

text \<open>What the establishment does on a peer that holds no connection for \<open>u\<close>.\<close>

definition peer_establish :: "string \<Rightarrow> node \<times> effect list" where
  "peer_establish nid =
     establishSMTPConnection This ''u'' yahoo (JFn (Caller 7))
       (fresh_node nid ''n0'' [''n0'', ''n1'', ''n2''])"

text \<open>
  Two requests on the leader while the first is in flight, both sent to the same peer, and
  the same for two credential requests.
\<close>

definition dup1 :: "node \<times> effect list" where
  "dup1 = getSMTPConnection (Peer ''n1'') This ''u'' yahoo (JBool False) (JFn (Caller 1)) leader0"

definition dup2 :: "node \<times> effect list" where
  "dup2 =
     getSMTPConnection (Peer ''n1'') This ''u'' yahoo (JBool False) (JFn (Caller 2)) (fst dup1)"

definition cred1 :: "node \<times> effect list" where
  "cred1 = getSMTPCredentials (Peer ''n1'') ''u'' gmail (JFn (Caller 1)) leader0"

definition cred2 :: "node \<times> effect list" where
  "cred2 = getSMTPCredentials (Peer ''n1'') ''u'' gmail (JFn (Caller 2)) (fst cred1)"

text \<open>
  A connection for \<open>u\<close> is established on the leader \<open>n1\<close> and then established again.
  The credentials come from the peer \<open>n2\<close>; the closures are called with the node object
  as receiver. \<open>auth1\<close> and \<open>auth2\<close> are the credentials resolved the first and the second
  time.
\<close>

definition auth1 :: jsval where
  "auth1 = JObj [(''user'', JStr ''u''), (''xoauth2'', JStr ''token1'')]"

definition auth2 :: jsval where
  "auth2 = JObj [(''user'', JStr ''u''), (''xoauth2'', JStr ''token2'')]"

definition node_object :: jsval where
  "node_object = JObj [(''id'', JStr ''n1'')]"

definition est1 :: "node \<times> effect list" where
  "est1 =
     establishSMTPConnection (Peer ''n2'') ''u'' gmail (JFn (Caller 1))
       (fresh_node ''n1'' ''n1'' [''n2''])"

definition est1_credentials :: "node \<times> effect list" where
  "est1_credentials = apply_cont (Joined credentials_key) node_object [JNull, auth1] (fst est1)"

definition est1_received :: "node \<times> effect list" where
  "est1_received =
     apply_cont (ReceivedCredentials (TransportRef 0) (JFn (Joined establish_key))) node_object
       [JNull, auth1] (fst est1_credentials)"

definition est1_done :: "node \<times> effect list" where
  "est1_done =
     apply_cont (Joined establish_key) node_object [JNull, JStr ''n1''] (fst est1_received)"

definition est2 :: "node \<times> effect list" where
  "est2 = establishSMTPConnection (Peer ''n2'') ''u'' gmail (JFn (Caller 2)) (fst est1_done)"

definition est2_credentials :: "node \<times> effect list" where
  "est2_credentials = apply_cont (Joined credentials_key) node_object [JNull, auth2] (fst est2)"

definition est2_received :: "node \<times> effect list" where
  "est2_received =
     apply_cont (ReceivedCredentials (EntryRef 1) (JFn (Joined establish_key))) node_object
       [JNull, auth2] (fst est2_credentials)"

text \<open>
  A send request for \<open>u\<close> arrives on \<open>n1\<close>, which is not the leader, while the directory
  names the live peer \<open>n2\<close> as the home of \<open>u\<close>'s connection.
\<close>

definition owned_elsewhere :: node where
  "owned_elsewhere =
     cluster_set connection_key (JStr ''n2'') (fresh_node ''n1'' ''n0'' [''n0'', ''n2''])"

definition send_options :: jsval where
  "send_options = JObj [(''credentials'', yahoo), (''email'', JStr ''hello'')]"

definition send1 :: "node \<times> effect list" where
  "send1 = sendMail This This ''u'' send_options (JFn (Caller 0)) owned_elsewhere"

text \<open>
  A node whose two caches are full: 1000 connections and 10000 credential entries, the
  least recently used last, each with its pointer published in the directory.
\<close>

definition owner_name :: "nat \<Rightarrow> string" where
  "owner_name i = CHR ''x'' # replicate i (CHR ''y'')"

definition cached_credentials :: "nat \<Rightarrow> cred_entry" where
  "cached_credentials i =
     \<lparr>cred_it = createXOAuth2Generator [(''user'', JStr (owner_name i))],
      cred_key = ok ''generateOAuthCredentials'' (owner_name i)\<rparr>"

definition full_node :: node where
  "full_node =
     (fresh_node ''n1'' ''n0'' [''n0''])
       \<lparr>cluster := (\<lambda>k. case k of LeaderKey \<Rightarrow> JStr ''n0'' | OpKey name owner \<Rightarrow> JStr ''n1''),
        connectionCache := map (\<lambda>i. (owner_name i, 2 * i + 1)) [0..<1000],
        credentialsCache := map (\<lambda>i. (owner_name i, cached_credentials i)) [0..<10000],
        entries := (\<lambda>a. \<lparr>conn_it = a - 1,
                           conn_key = ok ''getSMTPConnection'' (owner_name (a div 2)),
                           conn_auth = JUndefined\<rparr>),
        next_ref := 2000\<rparr>"



text \<open>Whether an effect is the call of a callback.\<close>

fun is_invoke :: "effect \<Rightarrow> bool" where
  "is_invoke (Invoke c args) = True"
| "is_invoke e = False"

text \<open>
  The leader \<open>n0\<close> with the directory naming the online peer \<open>n1\<close>, and with the directory
  naming \<open>n9\<close>, which is not online, as the home of \<open>u\<close>'s connection.
\<close>

definition live_owner :: node where
  "live_owner = cluster_set connection_key (JStr ''n1'') leader0"

definition dead_owner :: node where
  "dead_owner = cluster_set connection_key (JStr ''n9'') leader0"

text \<open>
  A token is generated for \<open>u\<close> on a node that holds no generator yet, and the refresh
  fails.
\<close>

definition refresh1 :: "node \<times> effect list" where
  "refresh1 =
     generateOAuthCredentials 1000 ''u'' gmail (JFn (Caller 0)) (fresh_node ''n1'' ''n1'' [])"

definition refresh1_failed :: "node \<times> effect list" where
  "refresh1_failed =
     apply_cont (RegenerateOAuthToken ''u'' (JFn (Joined generate_key))) JUndefined
       [JError ''invalid_grant''] (fst refresh1)"

definition refresh1_resolved :: "node \<times> effect list" where
  "refresh1_resolved =
     apply_cont (Joined generate_key) JUndefined [JError ''invalid_grant''] (fst refresh1_failed)"



text \<open>
  A request on the leader \<open>n0\<close> while the directory names the dead node \<open>n9\<close>. In the first
  run \<open>randomPeerOrSelf\<close> gives the peer \<open>n2\<close>, which answers with its id. In the second it
  gives the leader itself: the establishment is local, the \<open>setImmediate\<close> of the yahoo
  credentials fires, and the outcome travels back through the two joined callbacks.
\<close>

definition dead_peer :: "node \<times> effect list" where
  "dead_peer =
     getSMTPConnection (Peer ''n2'') This ''u'' yahoo (JBool False) (JFn (Caller 3)) dead_owner"

definition dead_peer_reply :: "node \<times> effect list" where
  "dead_peer_reply =
     apply_cont (ConnectionCallback connection_key (JFn (Joined connection_key))) JUndefined
       [JNull, JStr ''n2''] (fst dead_peer)"

definition dead_peer_answered :: "node \<times> effect list" where
  "dead_peer_answered =
     apply_cont (Joined connection_key) JUndefined [JNull, JStr ''n2''] (fst dead_peer_reply)"

definition dead_local :: "node \<times> effect list" where
  "dead_local =
     getSMTPConnection This This ''u'' yahoo (JBool False) (JFn (Caller 3)) dead_owner"

definition dead_local_immediate :: "node \<times> effect list" where
  "dead_local_immediate =
     apply_cont (ReceivedCredentials (TransportRef 0) (JFn (Joined establish_key))) JUndefined
       [picked] (fst dead_local)"

definition dead_local_established :: "node \<times> effect list" where
  "dead_local_established =
     apply_cont (Joined establish_key) JUndefined [picked] (fst dead_local_immediate)"

definition dead_local_reply :: "node \<times> effect list" where
  "dead_local_reply =
     apply_cont (ConnectionCallback connection_key (JFn (Joined connection_key))) JUndefined
       [picked] (fst dead_local_established)"

definition dead_local_answered :: "node \<times> effect list" where
  "dead_local_answered =
     apply_cont (Joined connection_key) JUndefined [picked] (fst dead_local_reply)"

section \<open>Theorems\<close>

text \<open>
  C1. Two acquisition requests for the same owner that reach the leader while no pointer is
  published yet are both sent on for establishment: the first to \<open>n1\<close>, the second to \<open>n2\<close>.
  A peer without a connection for the owner creates one when it establishes, so both \<open>n1\<close>
  and \<open>n2\<close> create a transport. Both callers are answered \<open>n1\<close>; the second answer then
  overwrites the pointer with \<open>n2\<close> and ends in a TypeError.
\<close>

theorem concurrent_requests_create_two_connections:
  "snd race1 =
     [RemoteCall (JStr ''n1'') ''establishSMTPConnection'' [JStr ''u'', yahoo, JBool True]
        (JFn (ConnectionCallback connection_key (JFn (Joined connection_key))))]
   \<and> snd race2 =
     [RemoteCall (JStr ''n2'') ''establishSMTPConnection'' [JStr ''u'', yahoo, JBool True]
        (JFn (ConnectionCallback connection_key (JBool False)))]
   \<and> next_ref (fresh_node ''n1'' ''n0'' [''n0'', ''n1'', ''n2'']) = 0
   \<and> connectionCache (fst (peer_establish ''n1'')) = [(''u'', 1)]
   \<and> conn_it (entries (fst (peer_establish ''n1'')) 1) = 0
   \<and> next_ref (fst (peer_establish ''n1'')) = 2
   \<and> connectionCache (fst (peer_establish ''n2'')) = [(''u'', 1)]
   \<and> conn_it (entries (fst (peer_establish ''n2'')) 1) = 0
   \<and> snd race_reply1 = [Invoke (Joined connection_key) [JNull, JStr ''n1'']]
   \<and> snd race_resolved1 =
     [Invoke (Caller 1) [JNull, JStr ''n1''], Invoke (Caller 2) [JNull, JStr ''n1'']]
   \<and> snd race_reply2 = [Throw ''TypeError: not a function'']
   \<and> cluster (fst race_reply2) connection_key = JStr ''n2''"
  by code_simp

text \<open>
  C2. While the first request is in flight, the registration of the second returns the
  falsy non-proceed value, and both \<open>getSMTPConnection\<close> (line 88) and \<open>getSMTPCredentials\<close>
  (line 256) go on without looking at it: each issues a second remote call, with the falsy
  value in the place of the joined callback.
\<close>

theorem unchecked_registration_starts_duplicate_work:
  "fst (callbackQueue_add connection_key (JFn (Caller 2)) (fst dup1)) = JBool False
   \<and> snd dup1 =
     [RemoteCall (JStr ''n1'') ''establishSMTPConnection'' [JStr ''u'', yahoo, JBool True]
        (JFn (ConnectionCallback connection_key (JFn (Joined connection_key))))]
   \<and> snd dup2 =
     [RemoteCall (JStr ''n1'') ''establishSMTPConnection'' [JStr ''u'', yahoo, JBool True]
        (JFn (ConnectionCallback connection_key (JBool False)))]
   \<and> callbackQueue (fst dup2) connection_key = Some [JFn (Caller 1), JFn (Caller 2)]
   \<and> fst (callbackQueue_add credentials_key (JFn (Caller 2)) (fst cred1)) = JBool False
   \<and> snd cred1 =
     [RemoteCall (JStr ''n1'') ''generateOAuthCredentials'' [JStr ''u'', gmail]
        (JFn (Joined credentials_key))]
   \<and> snd cred2 =
     [RemoteCall (JStr ''n1'') ''generateOAuthCredentials'' [JStr ''u'', gmail] (JBool False)]"
  by code_simp

text \<open>
  C6. For the provider \<open>yahoo\<close> the continuation is scheduled with one argument, the picked
  \<open>user\<close> and \<open>pass\<close> fields: they arrive in the error position and the value position is
  \<open>undefined\<close>, so a continuation such as \<open>receivedCredentials\<close> takes them for an error.
  An unknown provider schedules the continuation with the error; neither case makes a
  remote call.
\<close>

theorem passthrough_credentials_arrive_as_error:
  "getSMTPCredentials peerNode ''u'' yahoo next st = (st, [SetImmediate next [picked]])
   \<and> arg 0 [picked] = picked
   \<and> truthy (arg 0 [picked])
   \<and> arg 1 [picked] = JUndefined
   \<and> receivedCredentials connection callback this [picked] st = (st, [call callback [picked]])
   \<and> getSMTPCredentials peerNode ''u'' (JObj [(''provider'', JStr ''unknown'')]) next st
       = (st, [SetImmediate next [JError ''passed provider is not supported'']])"
  by (simp add: getSMTPCredentials_def receivedCredentials_def yahoo_def picked_def pick_def
      get_prop_def arg_def)

text \<open>
  C8. When the connection of \<open>u\<close> is already cached, the closure made by
  \<open>establishSMTPConnection\<close> holds the cache object \<open>{it, cluster, key}\<close>, not the transport:
  the credentials resolved the second time are written to the cache object and the
  transport keeps the old ones. Called the way the module calls its callbacks, with no
  receiver, the closure throws on \<open>this.id\<close> instead of answering.
\<close>

theorem reestablish_leaves_transport_auth_stale:
  "connectionCache (fst est1_done) = [(''u'', 1)]
   \<and> conn_it (entries (fst est1_done) 1) = 0
   \<and> transport_auth (transports (fst est1_done) 0) = auth1
   \<and> snd est2_credentials =
     [Invoke (ReceivedCredentials (EntryRef 1) (JFn (Joined establish_key))) [JNull, auth2]]
   \<and> snd est2_received = [Invoke (Joined establish_key) [JNull, JStr ''n1'']]
   \<and> transport_auth (transports (fst est2_received) 0) = auth1
   \<and> conn_auth (entries (fst est2_received) 1) = auth2
   \<and> transports (fst (receivedCredentials (EntryRef w) callback this args st)) = transports st
   \<and> snd (receivedCredentials connection callback JUndefined [JNull, auth] st)
       = [Throw ''TypeError: cannot read property id'']"
proof -
  have scenario:
    "connectionCache (fst est1_done) = [(''u'', 1)]
     \<and> conn_it (entries (fst est1_done) 1) = 0
     \<and> transport_auth (transports (fst est1_done) 0) = auth1
     \<and> snd est2_credentials =
       [Invoke (ReceivedCredentials (EntryRef 1) (JFn (Joined establish_key))) [JNull, auth2]]
     \<and> snd est2_received = [Invoke (Joined establish_key) [JNull, JStr ''n1'']]
     \<and> transport_auth (transports (fst est2_received) 0) = auth1
     \<and> conn_auth (entries (fst est2_received) 1) = auth2"
    by code_simp
  have untouched:
    "transports (fst (receivedCredentials (EntryRef w) callback this args st)) = transports st"
    by (simp add: receivedCredentials_def Let_def split: option.split)
  have throws:
    "snd (receivedCredentials connection callback JUndefined [JNull, auth] st)
       = [Throw ''TypeError: cannot read property id'']"
    by (simp add: receivedCredentials_def arg_def)
  from scenario untouched throws show ?thesis by simp
qed

text \<open>
  C9. \<open>sendMail\<close> passes its continuation to \<open>getSMTPConnection\<close> as the third argument, so
  it arrives as \<open>force\<close> and is only tested for truthiness: what \<open>sendMail\<close> does depends
  neither on the email nor on the caller's callback. On a node that is not the leader, with
  the directory naming the live peer \<open>n2\<close>, the request is not forwarded and nothing is
  sent: the node creates a connection of its own and registers \<open>undefined\<close> as the waiter.
\<close>

theorem sendMail_drops_its_continuation:
  "sendMail p q u
      (JObj [(''credentials'', c), (''email'', e1), (''prepareEmailFunctionName'', n1)]) next1 st
     = sendMail p q u
         (JObj [(''credentials'', c), (''email'', e2), (''prepareEmailFunctionName'', n2)]) next2 st
   \<and> cluster owned_elsewhere connection_key = JStr ''n2''
   \<and> peerOnline owned_elsewhere (JStr ''n2'')
   \<and> snd send1 =
     [SetImmediate (JFn (ReceivedCredentials (TransportRef 0) (JFn (Joined establish_key))))
        [picked]]
   \<and> connectionCache (fst send1) = [(''u'', 1)]
   \<and> callbackQueue (fst send1) connection_key = Some [JUndefined]
   \<and> callbackQueue (fst send1) establish_key
       = Some [JFn (ConnectionCallback connection_key (JFn (Joined connection_key)))]"
proof -
  have independent:
    "sendMail p q u
        (JObj [(''credentials'', c), (''email'', e1), (''prepareEmailFunctionName'', n1)]) next1 st
       = sendMail p q u
           (JObj [(''credentials'', c), (''email'', e2), (''prepareEmailFunctionName'', n2)])
           next2 st"
    by (simp add: sendMail_def getSMTPConnection_def get_prop_def)
  have scenario:
    "cluster owned_elsewhere connection_key = JStr ''n2''
     \<and> peerOnline owned_elsewhere (JStr ''n2'')
     \<and> snd send1 =
       [SetImmediate (JFn (ReceivedCredentials (TransportRef 0) (JFn (Joined establish_key))))
          [picked]]
     \<and> connectionCache (fst send1) = [(''u'', 1)]
     \<and> callbackQueue (fst send1) connection_key = Some [JUndefined]
     \<and> callbackQueue (fst send1) establish_key
         = Some [JFn (ConnectionCallback connection_key (JFn (Joined connection_key)))]"
    by code_simp
  from independent scenario show ?thesis by simp
qed

text \<open>
  C10. After \<open>init\<close> each of the five operation names is attached, and four of them are
  bound to the function of that name; \<open>generateOAuthCredentials\<close> is attached to
  \<open>exports.generateGmailCredentials\<close>, a property the module never defines, so it is
  bound to \<open>undefined\<close> and not to a function.
\<close>

theorem init_registers_undefined_generator:
  "init_registry Map.empty ''generateOAuthCredentials'' = Some None
   \<and> exports ''generateOAuthCredentials'' = Some F_generateOAuthCredentials
   \<and> init_registry Map.empty ''getSMTPConnection'' = Some (Some F_getSMTPConnection)
   \<and> init_registry Map.empty ''establishSMTPConnection'' = Some (Some F_establishSMTPConnection)
   \<and> init_registry Map.empty ''getSMTPCredentials'' = Some (Some F_getSMTPCredentials)
   \<and> init_registry Map.empty ''sendMail'' = Some (Some F_sendMail)"
  by (simp add: init_registry_def attachRemoteCall_def exports_def)

text \<open>What the disposal of a list of evicted entries does to the node.\<close>

lemma dispose_all_connection:
  "dispose_all connectionCache_dispose ev st =
     (st\<lparr>cluster := (\<lambda>k. if k \<in> (\<lambda>p. conn_key (entries st (snd p))) ` set ev then JNull
                          else cluster st k)\<rparr>,
      map (\<lambda>p. Close (conn_it (entries st (snd p)))) ev)"
proof (induction ev arbitrary: st)
  case Nil
  show ?case by simp
next
  case (Cons p ev)
  have "dispose_all connectionCache_dispose (p # ev) st =
          (case connectionCache_dispose (fst p) (snd p) st of
             (st1, effs1) \<Rightarrow>
               (case dispose_all connectionCache_dispose ev st1 of
                  (st2, effs2) \<Rightarrow> (st2, effs1 @ effs2)))"
    by simp
  also have "\<dots> =
      (st\<lparr>cluster := (\<lambda>k. if k \<in> (\<lambda>p. conn_key (entries st (snd p))) ` set (p # ev)
                            then JNull else cluster st k)\<rparr>,
       map (\<lambda>p. Close (conn_it (entries st (snd p)))) (p # ev))"
    unfolding Cons.IH
    by (simp add: connectionCache_dispose_def cluster_set_def Let_def fun_eq_iff)
  finally show ?case .
qed

lemma dispose_all_credentials:
  "dispose_all credentialsCache_dispose ev st =
     (st\<lparr>cluster := (\<lambda>k. if k \<in> (\<lambda>p. cred_key (snd p)) ` set ev then JNull
                          else cluster st k)\<rparr>, [])"
proof (induction ev arbitrary: st)
  case Nil
  show ?case by simp
next
  case (Cons p ev)
  have "dispose_all credentialsCache_dispose (p # ev) st =
          (case credentialsCache_dispose (fst p) (snd p) st of
             (st1, effs1) \<Rightarrow>
               (case dispose_all credentialsCache_dispose ev st1 of
                  (st2, effs2) \<Rightarrow> (st2, effs1 @ effs2)))"
    by simp
  also have "\<dots> =
      (st\<lparr>cluster := (\<lambda>k. if k \<in> (\<lambda>p. cred_key (snd p)) ` set (p # ev) then JNull
                            else cluster st k)\<rparr>, [])"
    unfolding Cons.IH
    by (simp add: credentialsCache_dispose_def cluster_set_def fun_eq_iff)
  finally show ?case .
qed

text \<open>A write of a new key to a full cache evicts exactly the last entry.\<close>

lemma lru_set_overflow:
  assumes "length c = mx" and "0 < mx" and "k \<notin> fst ` set c"
  shows "lru_set mx k v c = ((k, v) # butlast c, [last c])"
proof -
  from assms(3) have keep: "filter (\<lambda>p. fst p \<noteq> k) c = c"
    by (induction c) auto
  from assms(1,2) have ne: "c \<noteq> []" by auto
  obtain m where m: "mx = Suc m" using assms(2) by (cases mx) auto
  have "take m c = butlast c"
    using assms(1) m by (simp add: butlast_conv_take)
  moreover have "drop m c = [last c]"
    using assms(1) m ne
    by (metis append_butlast_last_id append_eq_conv_conj diff_Suc_1 length_butlast)
  ultimately show ?thesis
    by (simp add: lru_set_def keep m)
qed

text \<open>
  C3. Every entry that a write pushes out of \<open>connectionCache\<close> has its transport closed
  and its directory key set to \<open>null\<close>, so the key reads absent afterwards; every entry
  pushed out of \<open>credentialsCache\<close> has its directory key set to \<open>null\<close>, and that
  hook calls nothing else: the credential cache does not release or close the generator.
  The same holds for each hook called on its own.
\<close>

theorem eviction_clears_directory_pointer:
  "(\<forall>p \<in> set (snd (lru_set 1000 username w (connectionCache st))).
       absent (cluster (fst (connectionCache_set username w st)) (conn_key (entries st (snd p))))
       \<and> Close (conn_it (entries st (snd p))) \<in> set (snd (connectionCache_set username w st)))
   \<and> (\<forall>p \<in> set (snd (lru_set 10000 username e (credentialsCache st))).
       absent (cluster (fst (credentialsCache_set username e st)) (cred_key (snd p))))
   \<and> snd (credentialsCache_set username e st) = []
   \<and> absent (cluster (fst (connectionCache_dispose k w st)) (conn_key (entries st w)))
   \<and> snd (connectionCache_dispose k w st) = [Close (conn_it (entries st w))]
   \<and> absent (cluster (fst (credentialsCache_dispose k e st)) (cred_key e))
   \<and> snd (credentialsCache_dispose k e st) = []"
proof -
  have conn:
    "\<forall>p \<in> set (snd (lru_set 1000 username w (connectionCache st))).
       absent (cluster (fst (connectionCache_set username w st)) (conn_key (entries st (snd p))))
       \<and> Close (conn_it (entries st (snd p))) \<in> set (snd (connectionCache_set username w st))"
    by (auto simp: connectionCache_set_def dispose_all_connection absent_def split: prod.split)
  have cred:
    "\<forall>p \<in> set (snd (lru_set 10000 username e (credentialsCache st))).
       absent (cluster (fst (credentialsCache_set username e st)) (cred_key (snd p)))"
    by (auto simp: credentialsCache_set_def dispose_all_credentials absent_def split: prod.split)
  have quiet: "snd (credentialsCache_set username e st) = []"
    by (simp add: credentialsCache_set_def dispose_all_credentials split: prod.split)
  have hooks:
    "absent (cluster (fst (connectionCache_dispose k w st)) (conn_key (entries st w)))
     \<and> snd (connectionCache_dispose k w st) = [Close (conn_it (entries st w))]
     \<and> absent (cluster (fst (credentialsCache_dispose k e st)) (cred_key e))
     \<and> snd (credentialsCache_dispose k e st) = []"
    by (simp add: connectionCache_dispose_def credentialsCache_dispose_def cluster_set_def
        absent_def Let_def)
  from conn cred quiet hooks show ?thesis by blast
qed

lemma full_connection_evicted:
  "lru_set 1000 ''u'' 2001 (connectionCache full_node)
     = ((''u'', 2001) # butlast (connectionCache full_node), [(owner_name 999, 1999)])"
proof -
  have "lru_set 1000 ''u'' 2001 (connectionCache full_node)
          = ((''u'', 2001) # butlast (connectionCache full_node), [last (connectionCache full_node)])"
    by (rule lru_set_overflow) (auto simp: full_node_def owner_name_def)
  moreover have "last (connectionCache full_node) = (owner_name 999, 1999)"
    by (simp add: full_node_def last_map)
  ultimately show ?thesis by simp
qed

lemma full_credentials_evicted:
  "lru_set 10000 ''u'' (cached_credentials 0) (credentialsCache full_node)
     = ((''u'', cached_credentials 0) # butlast (credentialsCache full_node),
        [(owner_name 9999, cached_credentials 9999)])"
proof -
  have "lru_set 10000 ''u'' (cached_credentials 0) (credentialsCache full_node)
          = ((''u'', cached_credentials 0) # butlast (credentialsCache full_node),
             [last (credentialsCache full_node)])"
    by (rule lru_set_overflow) (auto simp: full_node_def owner_name_def)
  moreover have "last (credentialsCache full_node) = (owner_name 9999, cached_credentials 9999)"
    by (simp add: full_node_def last_map)
  ultimately show ?thesis by simp
qed

theorem eviction_clears_directory_pointer_witness:
  "cluster full_node (ok ''getSMTPConnection'' (owner_name 999)) = JStr ''n1''
   \<and> absent (cluster (fst (connectionCache_set ''u'' 2001 full_node))
        (ok ''getSMTPConnection'' (owner_name 999)))
   \<and> Close 1998 \<in> set (snd (connectionCache_set ''u'' 2001 full_node))
   \<and> cluster full_node (ok ''generateOAuthCredentials'' (owner_name 9999)) = JStr ''n1''
   \<and> absent (cluster (fst (credentialsCache_set ''u'' (cached_credentials 0) full_node))
        (ok ''generateOAuthCredentials'' (owner_name 9999)))"
proof -
  have c: "(owner_name 999, 1999) \<in> set (snd (lru_set 1000 ''u'' 2001 (connectionCache full_node)))"
    by (simp add: full_connection_evicted)
  have d: "(owner_name 9999, cached_credentials 9999)
             \<in> set (snd (lru_set 10000 ''u'' (cached_credentials 0) (credentialsCache full_node)))"
    by (simp add: full_credentials_evicted)
  have e: "entries full_node 1999 =
             \<lparr>conn_it = 1998, conn_key = ok ''getSMTPConnection'' (owner_name 999),
              conn_auth = JUndefined\<rparr>"
    by (simp add: full_node_def)
  have f: "cred_key (cached_credentials 9999) = ok ''generateOAuthCredentials'' (owner_name 9999)"
    by (simp add: cached_credentials_def)
  have g: "cluster full_node (ok ''getSMTPConnection'' (owner_name 999)) = JStr ''n1''
           \<and> cluster full_node (ok ''generateOAuthCredentials'' (owner_name 9999)) = JStr ''n1''"
    by (simp add: full_node_def ok_def)
  from eviction_clears_directory_pointer
         [of "''u''" 2001 full_node "cached_credentials 0" "''u''"] c d e f g
  show ?thesis by fastforce
qed

text \<open>
  C3, the claim as stated: a write to the full credential cache evicts the least recently
  used entry, and neither the write nor the hook closes or releases anything.
\<close>

theorem credential_disposal_closes_nothing:
  "snd (lru_set 10000 ''u'' (cached_credentials 0) (credentialsCache full_node))
     = [(owner_name 9999, cached_credentials 9999)]
   \<and> snd (credentialsCache_set ''u'' (cached_credentials 0) full_node) = []
   \<and> snd (credentialsCache_dispose (owner_name 9999) (cached_credentials 9999) full_node) = []"
  by (simp add: full_credentials_evicted credentialsCache_set_def dispose_all_credentials
      credentialsCache_dispose_def)

text \<open>Neither credential resolution nor establishment calls a callback before it returns.\<close>

lemma getSMTPCredentials_calls_nothing:
  "list_all (\<lambda>e. \<not> is_invoke e) (snd (getSMTPCredentials p username credentials next st))"
  by (simp add: getSMTPCredentials_def Let_def credentialsCache_get_def callbackQueue_add_def
      split: option.split prod.split peer.split)

lemma establishSMTPConnection_calls_nothing:
  "list_all (\<lambda>e. \<not> is_invoke e) (snd (establishSMTPConnection q username credentials next st))"
proof -
  have closes: "list_all (\<lambda>e. \<not> is_invoke e) (snd (connectionCache_set u w s))" for u w s
    by (simp add: connectionCache_set_def dispose_all_connection list_all_iff split: prod.split)
  have both: "list_all (\<lambda>e. \<not> is_invoke e) (snd (connectionCache_set u w s) @
                snd (getSMTPCredentials q username credentials nx s'))" for u w s nx s'
    using closes [of u w s] getSMTPCredentials_calls_nothing [of q username credentials nx s']
    by simp
  show ?thesis
    unfolding establishSMTPConnection_def Let_def
    using both getSMTPCredentials_calls_nothing
    by (auto split: prod.split option.split simp: split_beta)
qed

text \<open>
  Acquisition never writes a node id into the directory: after \<open>getSMTPConnection\<close> has
  returned, every key holds what it held before or \<open>null\<close>.
\<close>

lemma credentialsCache_get_cluster:
  "cluster (snd (credentialsCache_get u st)) = cluster st"
  by (simp add: credentialsCache_get_def split_beta)

lemma callbackQueue_add_cluster:
  "cluster (snd (callbackQueue_add k cb st)) = cluster st"
  by (simp add: callbackQueue_add_def split: option.split)

lemma getSMTPCredentials_cluster:
  "cluster (fst (getSMTPCredentials p username credentials next st)) = cluster st"
  by (simp add: getSMTPCredentials_def Let_def split_beta credentialsCache_get_cluster
      callbackQueue_add_cluster split: option.split peer.split)

lemma connectionCache_set_cluster:
  "cluster (fst (connectionCache_set u w st)) k = cluster st k
   \<or> cluster (fst (connectionCache_set u w st)) k = JNull"
  by (simp add: connectionCache_set_def dispose_all_connection split_beta)

lemma establishSMTPConnection_cluster:
  "cluster (fst (establishSMTPConnection q username credentials next st)) k = cluster st k
   \<or> cluster (fst (establishSMTPConnection q username credentials next st)) k = JNull"
proof -
  let ?st1 = "snd (callbackQueue_add (ok ''establishSMTPConnection'' username) next st)"
  let ?st2 = "snd (connectionCache_get username ?st1)"
  have c1: "cluster ?st1 = cluster st"
    by (rule callbackQueue_add_cluster)
  have c2: "cluster ?st2 = cluster st"
    by (simp add: connectionCache_get_def split_beta c1)
  have miss: "cluster (fst (connectionCache_set username w
                 (snd (new_entry e (snd (createTransport v ?st2)))))) k = cluster st k
              \<or> cluster (fst (connectionCache_set username w
                 (snd (new_entry e (snd (createTransport v ?st2)))))) k = JNull" for w e v
    using connectionCache_set_cluster
            [of username w "snd (new_entry e (snd (createTransport v ?st2)))" k]
    by (simp add: new_entry_def createTransport_def c2)
  show ?thesis
    unfolding establishSMTPConnection_def Let_def split_beta
    using miss c1 c2
    by (simp add: getSMTPCredentials_cluster split: option.split)
qed

lemma getSMTPConnection_cluster:
  "cluster (fst (getSMTPConnection p q username credentials force next st)) k = cluster st k
   \<or> cluster (fst (getSMTPConnection p q username credentials force next st)) k = JNull"
proof -
  let ?st1 = "snd (callbackQueue_add (ok ''getSMTPConnection'' username) next st)"
  have est: "cluster (fst (establishSMTPConnection q username credentials nx ?st1)) k = cluster st k
             \<or> cluster (fst (establishSMTPConnection q username credentials nx ?st1)) k = JNull"
    for nx
    using establishSMTPConnection_cluster [of q username credentials nx ?st1 k]
    by (simp add: callbackQueue_add_cluster)
  show ?thesis
    unfolding getSMTPConnection_def Let_def split_beta
    using est establishSMTPConnection_cluster [of q username credentials "next" st k]
    by (simp add: callbackQueue_add_cluster split: peer.split)
qed

text \<open>
  \<open>generateOAuthCredentials\<close> writes the pointer of the generation key and the cache entry
  before it decides whether to refresh.
\<close>

lemma credentialsCache_set_state:
  "credentialsCache (fst (credentialsCache_set u e st)) = fst (lru_set 10000 u e (credentialsCache st))
   \<and> cluster (fst (credentialsCache_set u e st)) k =
       (if k \<in> (\<lambda>p. cred_key (snd p)) ` set (snd (lru_set 10000 u e (credentialsCache st)))
        then JNull else cluster st k)
   \<and> self_id (fst (credentialsCache_set u e st)) = self_id st
   \<and> callbackQueue (fst (credentialsCache_set u e st)) = callbackQueue st
   \<and> snd (credentialsCache_set u e st) = []"
  by (simp add: credentialsCache_set_def dispose_all_credentials split_beta)

lemma lru_set_head:
  "0 < mx \<Longrightarrow> fst (lru_set mx k v c) = (k, v) # take (mx - 1) (filter (\<lambda>p. fst p \<noteq> k) c)"
  by (cases mx) (simp_all add: lru_set_def)

lemma generateOAuthCredentials_writes_first:
  assumes idle: "callbackQueue st (ok ''generateOAuthCredentials'' username) = None"
    and creds: "member_of credentials ''provider'' = Some provider"
  shows "cluster (fst (generateOAuthCredentials now username credentials next st))
           (ok ''generateOAuthCredentials'' username) = JStr (self_id st)
         \<and> map_of (credentialsCache (fst (generateOAuthCredentials now username credentials next st)))
             username \<noteq> None"
proof -
  let ?k = "ok ''generateOAuthCredentials'' username"
  let ?st1 = "st\<lparr>callbackQueue := (callbackQueue st)(?k \<mapsto> [next])\<rparr>"
  have reg: "callbackQueue_add ?k next st = (JFn (Joined ?k), ?st1)"
    by (simp add: callbackQueue_add_def idle)
  show ?thesis
  proof (cases "map_of (credentialsCache st) username")
    case None
    then have miss: "credentialsCache_get username ?st1 = (None, ?st1)"
      by (simp add: credentialsCache_get_def lru_get_def)
    show ?thesis
      by (simp add: generateOAuthCredentials_def reg miss creds Let_def split_beta
          credentialsCache_set_state lru_set_head cluster_set_def)
  next
    case (Some e)
    then have hit: "credentialsCache_get username ?st1 =
               (Some e, ?st1\<lparr>credentialsCache :=
                           (username, e) # filter (\<lambda>p. fst p \<noteq> username) (credentialsCache st)\<rparr>)"
      by (simp add: credentialsCache_get_def lru_get_def)
    show ?thesis
      by (simp add: generateOAuthCredentials_def reg hit creds Let_def cluster_set_def)
  qed
qed

lemma generateOAuthCredentials_first_time:
  assumes idle: "callbackQueue st (ok ''generateOAuthCredentials'' username) = None"
    and creds: "member_of credentials ''provider'' = Some provider"
    and empty: "credentialsCache st = []"
  shows "snd (generateOAuthCredentials now username credentials next st)
           = [GenerateToken username
                (JFn (RegenerateOAuthToken username
                   (JFn (Joined (ok ''generateOAuthCredentials'' username)))))]
         \<and> map fst (credentialsCache (fst (generateOAuthCredentials now username credentials next st)))
             = [username]
         \<and> callbackQueue (fst (generateOAuthCredentials now username credentials next st))
             (ok ''generateOAuthCredentials'' username) = Some [next]"
proof -
  let ?k = "ok ''generateOAuthCredentials'' username"
  let ?st1 = "st\<lparr>callbackQueue := (callbackQueue st)(?k \<mapsto> [next])\<rparr>"
  have reg: "callbackQueue_add ?k next st = (JFn (Joined ?k), ?st1)"
    by (simp add: callbackQueue_add_def idle)
  have miss: "credentialsCache_get username ?st1 = (None, ?st1)"
    by (simp add: credentialsCache_get_def lru_get_def empty)
  show ?thesis
    by (simp add: generateOAuthCredentials_def reg miss creds Let_def split_beta empty
        credentialsCache_set_state lru_set_head cluster_set_def createXOAuth2Generator_def)
qed

text \<open>The failure branches of the two continuations, and the joined callback.\<close>

lemma error_passed_on:
  "truthy err \<Longrightarrow>
     connectionCallback k callback (err # rest) st = (st, [call callback [err]])
     \<and> regenerateOAuthToken username callback (err # rest) st = (st, [call callback [err]])"
  by (simp add: connectionCallback_def regenerateOAuthToken_def arg_def)

lemma joined_callback_resolves:
  "callbackQueue st k = Some waiting \<Longrightarrow>
     callbackQueue_resolve k args st
       = (st\<lparr>callbackQueue := (callbackQueue st)(k := None)\<rparr>, map (\<lambda>cb. call cb args) waiting)"
  by (simp add: callbackQueue_resolve_def)

text \<open>
  C7, as amended. When establishment or token refresh fails, \<open>connectionCallback\<close> and
  \<open>regenerateOAuthToken\<close> pass the error to the single-flight callback and leave the node
  as it is; the joined callback hands the error to every registered waiter and changes
  neither the directory nor a cache. The connection pointer is written by
  \<open>connectionCallback\<close> when it is called without an error, and acquisition itself writes no
  node id into the directory. \<open>generateOAuthCredentials\<close>, when it proceeds, has written the
  pointer of the generation key and holds a cache entry for the owner before any refresh
  is attempted.
\<close>

theorem failure_is_passed_on_without_writes:
  assumes failed: "truthy err"
  shows
    "connectionCallback k callback (err # rest) st = (st, [call callback [err]])
     \<and> regenerateOAuthToken username callback (err # rest) st = (st, [call callback [err]])
     \<and> (callbackQueue st k = Some waiting \<longrightarrow>
          snd (apply_cont (Joined k) this [err] st) = map (\<lambda>cb. call cb [err]) waiting
          \<and> cluster (fst (apply_cont (Joined k) this [err] st)) = cluster st
          \<and> connectionCache (fst (apply_cont (Joined k) this [err] st)) = connectionCache st
          \<and> credentialsCache (fst (apply_cont (Joined k) this [err] st)) = credentialsCache st)
     \<and> (\<not> truthy none \<longrightarrow>
          cluster (fst (connectionCallback k callback [none, nodeId] st)) k = nodeId)
     \<and> (cluster (fst (getSMTPConnection p q owner credentials force next st)) k'
            = cluster st k'
          \<or> cluster (fst (getSMTPConnection p q owner credentials force next st)) k' = JNull)
     \<and> (callbackQueue st (ok ''generateOAuthCredentials'' username) = None
        \<and> member_of credentials ''provider'' = Some provider \<longrightarrow>
          cluster (fst (generateOAuthCredentials now username credentials next' st))
            (ok ''generateOAuthCredentials'' username) = JStr (self_id st)
          \<and> map_of (credentialsCache
                (fst (generateOAuthCredentials now username credentials next' st))) username
              \<noteq> None)"
proof -
  have published:
    "\<not> truthy none \<longrightarrow>
       cluster (fst (connectionCallback k callback [none, nodeId] st)) k = nodeId"
    by (simp add: connectionCallback_def arg_def cluster_set_def)
  have resolved:
    "callbackQueue st k = Some waiting \<longrightarrow>
          snd (apply_cont (Joined k) this [err] st) = map (\<lambda>cb. call cb [err]) waiting
          \<and> cluster (fst (apply_cont (Joined k) this [err] st)) = cluster st
          \<and> connectionCache (fst (apply_cont (Joined k) this [err] st)) = connectionCache st
          \<and> credentialsCache (fst (apply_cont (Joined k) this [err] st)) = credentialsCache st"
    by (simp add: joined_callback_resolves)
  from error_passed_on [OF failed] resolved published getSMTPConnection_cluster
    generateOAuthCredentials_writes_first
  show ?thesis by blast
qed

theorem failure_is_passed_on_without_writes_witness:
  "regenerateOAuthToken ''u'' (JFn (Joined generate_key)) [JError ''invalid_grant''] (fst refresh1)
     = (fst refresh1, [Invoke (Joined generate_key) [JError ''invalid_grant'']])
   \<and> connectionCallback connection_key (JFn (Joined connection_key)) [JError ''invalid_grant'']
       (fst refresh1)
     = (fst refresh1, [Invoke (Joined connection_key) [JError ''invalid_grant'']])
   \<and> snd (apply_cont (Joined generate_key) JUndefined [JError ''invalid_grant''] (fst refresh1))
     = [Invoke (Caller 0) [JError ''invalid_grant'']]
   \<and> cluster (fst (connectionCallback connection_key (JFn (Joined connection_key))
        [JNull, JStr ''n2''] (fst refresh1))) connection_key = JStr ''n2''
   \<and> cluster (fst refresh1) generate_key = JStr ''n1''"
proof -
  have failed: "truthy (JError ''invalid_grant'')" by simp
  have idle: "callbackQueue (fresh_node ''n1'' ''n1'' []) (ok ''generateOAuthCredentials'' ''u'') = None"
    by (simp add: fresh_node_def)
  have creds: "member_of gmail ''provider'' = Some (JStr ''gmail'')"
    by (simp add: gmail_def get_prop_def)
  have empty: "credentialsCache (fresh_node ''n1'' ''n1'' []) = []"
    by (simp add: fresh_node_def)
  have waiting: "callbackQueue (fst refresh1) generate_key = Some [JFn (Caller 0)]"
    using generateOAuthCredentials_first_time [OF idle creds empty, of 1000 "JFn (Caller 0)"]
    by (simp add: refresh1_def generate_key_def)
  have ok: "\<not> truthy JNull" by simp
  have own: "self_id (fresh_node ''n1'' ''n1'' []) = ''n1''"
    by (simp add: fresh_node_def)
  note inst = failure_is_passed_on_without_writes [OF failed, where rest = "[]"
      and username = "''u''" and this = JUndefined]
  from inst [where k = connection_key and callback = "JFn (Joined connection_key)"
      and st = "fst refresh1"]
  have a: "connectionCallback connection_key (JFn (Joined connection_key))
             [JError ''invalid_grant''] (fst refresh1)
           = (fst refresh1, [Invoke (Joined connection_key) [JError ''invalid_grant'']])"
    by simp
  from inst [where k = generate_key and callback = "JFn (Joined generate_key)"
      and st = "fst refresh1" and waiting = "[JFn (Caller 0)]"] waiting
  have b: "regenerateOAuthToken ''u'' (JFn (Joined generate_key)) [JError ''invalid_grant'']
             (fst refresh1)
           = (fst refresh1, [Invoke (Joined generate_key) [JError ''invalid_grant'']])"
    and c: "snd (apply_cont (Joined generate_key) JUndefined [JError ''invalid_grant'']
                   (fst refresh1)) = [Invoke (Caller 0) [JError ''invalid_grant'']]"
    by simp_all
  from inst [where k = connection_key and callback = "JFn (Joined connection_key)"
      and st = "fst refresh1" and none = JNull and nodeId = "JStr ''n2''"] ok
  have d: "cluster (fst (connectionCallback connection_key (JFn (Joined connection_key))
             [JNull, JStr ''n2''] (fst refresh1))) connection_key = JStr ''n2''"
    by blast
  from inst [where st = "fresh_node ''n1'' ''n1'' []" and credentials = gmail
      and provider = "JStr ''gmail''" and now = 1000 and next' = "JFn (Caller 0)"]
    idle creds own
  have e: "cluster (fst refresh1) generate_key = JStr ''n1''"
    by (simp add: refresh1_def generate_key_def)
  from a b c d e show ?thesis by simp
qed

text \<open>
  C7, the claim as stated: a token is generated for the first time and the refresh fails.
  The error reaches the caller, but the directory now names \<open>n1\<close> for the generation key
  and the credential cache holds an entry for \<open>u\<close>; neither was there before.
\<close>

theorem token_refresh_failure_keeps_pointer_and_entry:
  "cluster (fresh_node ''n1'' ''n1'' []) generate_key = JUndefined
   \<and> map fst (credentialsCache (fresh_node ''n1'' ''n1'' [])) = []
   \<and> snd refresh1
       = [GenerateToken ''u'' (JFn (RegenerateOAuthToken ''u'' (JFn (Joined generate_key))))]
   \<and> snd refresh1_failed = [Invoke (Joined generate_key) [JError ''invalid_grant'']]
   \<and> snd refresh1_resolved = [Invoke (Caller 0) [JError ''invalid_grant'']]
   \<and> cluster (fst refresh1_resolved) generate_key = JStr ''n1''
   \<and> map fst (credentialsCache (fst refresh1_resolved)) = [''u'']"
proof -
  have idle: "callbackQueue (fresh_node ''n1'' ''n1'' []) (ok ''generateOAuthCredentials'' ''u'') = None"
    by (simp add: fresh_node_def)
  have creds: "member_of gmail ''provider'' = Some (JStr ''gmail'')"
    by (simp add: gmail_def get_prop_def)
  have empty: "credentialsCache (fresh_node ''n1'' ''n1'' []) = []"
    by (simp add: fresh_node_def)
  have before: "cluster (fresh_node ''n1'' ''n1'' []) generate_key = JUndefined"
    by (simp add: fresh_node_def generate_key_def ok_def)
  have started:
    "snd refresh1
       = [GenerateToken ''u'' (JFn (RegenerateOAuthToken ''u'' (JFn (Joined generate_key))))]
     \<and> map fst (credentialsCache (fst refresh1)) = [''u'']
     \<and> callbackQueue (fst refresh1) generate_key = Some [JFn (Caller 0)]"
    using generateOAuthCredentials_first_time [OF idle creds empty, of 1000 "JFn (Caller 0)"]
    by (simp add: refresh1_def generate_key_def)
  have pointer: "cluster (fst refresh1) generate_key = JStr ''n1''"
    using generateOAuthCredentials_writes_first [OF idle creds, of 1000 "JFn (Caller 0)"]
    by (simp add: refresh1_def generate_key_def fresh_node_def)
  have failed:
    "snd refresh1_failed = [Invoke (Joined generate_key) [JError ''invalid_grant'']]
     \<and> fst refresh1_failed = fst refresh1"
    using error_passed_on [of "JError ''invalid_grant''" _ _ "[]"]
    by (simp add: refresh1_failed_def)
  have resolved:
    "snd refresh1_resolved = [Invoke (Caller 0) [JError ''invalid_grant'']]
     \<and> cluster (fst refresh1_resolved) = cluster (fst refresh1)
     \<and> credentialsCache (fst refresh1_resolved) = credentialsCache (fst refresh1)"
    using started joined_callback_resolves [of "fst refresh1" generate_key "[JFn (Caller 0)]"]
    by (simp add: refresh1_resolved_def failed)
  from before empty started pointer failed resolved show ?thesis by simp
qed




text \<open>
  What a local establishment leaves behind: a cached connection for the owner and its
  callback as the one waiter of the establishment, with every other pending record but
  that of the credential request as it was.
\<close>

lemma getSMTPCredentials_frame:
  "connectionCache (fst (getSMTPCredentials p username credentials next st)) = connectionCache st
   \<and> (k \<noteq> ok ''getSMTPCredentials'' username \<longrightarrow>
        callbackQueue (fst (getSMTPCredentials p username credentials next st)) k
          = callbackQueue st k)"
  by (simp add: getSMTPCredentials_def Let_def split_beta credentialsCache_get_def
      callbackQueue_add_def split: option.split peer.split)

lemma connectionCache_set_state:
  "connectionCache (fst (connectionCache_set u w st)) = fst (lru_set 1000 u w (connectionCache st))
   \<and> callbackQueue (fst (connectionCache_set u w st)) = callbackQueue st"
  by (simp add: connectionCache_set_def dispose_all_connection split_beta)

lemma establishSMTPConnection_state:
  assumes idle: "callbackQueue st (ok ''establishSMTPConnection'' username) = None"
    and creds: "member_of credentials ''provider'' = Some provider"
  shows "map_of (connectionCache (fst (establishSMTPConnection q username credentials next st)))
           username \<noteq> None
         \<and> callbackQueue (fst (establishSMTPConnection q username credentials next st))
             (ok ''establishSMTPConnection'' username) = Some [next]
         \<and> (k \<noteq> ok ''establishSMTPConnection'' username
            \<and> k \<noteq> ok ''getSMTPCredentials'' username \<longrightarrow>
              callbackQueue (fst (establishSMTPConnection q username credentials next st)) k
                = callbackQueue st k)"
proof -
  let ?ek = "ok ''establishSMTPConnection'' username"
  let ?st1 = "st\<lparr>callbackQueue := (callbackQueue st)(?ek \<mapsto> [next])\<rparr>"
  have reg: "callbackQueue_add ?ek next st = (JFn (Joined ?ek), ?st1)"
    by (simp add: callbackQueue_add_def idle)
  have ne: "?ek \<noteq> ok ''getSMTPCredentials'' username"
    by (simp add: ok_def)
  show ?thesis
  proof (cases "map_of (connectionCache st) username")
    case (Some w)
    let ?st2 = "?st1\<lparr>connectionCache :=
                        (username, w) # filter (\<lambda>p. fst p \<noteq> username) (connectionCache st)\<rparr>"
    have hit: "connectionCache_get username ?st1 = (Some w, ?st2)"
      by (simp add: connectionCache_get_def lru_get_def Some)
    have run: "establishSMTPConnection q username credentials next st =
                 getSMTPCredentials q username credentials
                   (JFn (ReceivedCredentials (EntryRef w) (JFn (Joined ?ek)))) ?st2"
      by (simp add: establishSMTPConnection_def reg hit Let_def)
    show ?thesis
      using ne
        getSMTPCredentials_frame [of q username credentials
          "JFn (ReceivedCredentials (EntryRef w) (JFn (Joined ?ek)))" ?st2 ?ek]
        getSMTPCredentials_frame [of q username credentials
          "JFn (ReceivedCredentials (EntryRef w) (JFn (Joined ?ek)))" ?st2 k]
      by (simp add: run)
  next
    case None
    have miss: "connectionCache_get username ?st1 = (None, ?st1)"
      by (simp add: connectionCache_get_def lru_get_def None)
    let ?t = "next_ref st"
    let ?st3 = "snd (createTransport provider ?st1)"
    let ?e = "\<lparr>conn_it = ?t, conn_key = ok ''getSMTPConnection'' username,
               conn_auth = JUndefined\<rparr>"
    let ?w = "Suc (next_ref st)"
    let ?st4 = "snd (new_entry ?e ?st3)"
    let ?st5 = "fst (connectionCache_set username ?w ?st4)"
    have alloc: "fst (createTransport provider ?st1) = ?t"
      "fst (new_entry ?e ?st3) = ?w"
      by (simp_all add: createTransport_def new_entry_def)
    have q4: "callbackQueue ?st4 = callbackQueue ?st1"
      by (simp add: createTransport_def new_entry_def)
    have run: "fst (establishSMTPConnection q username credentials next st) =
                 fst (getSMTPCredentials q username credentials
                   (JFn (ReceivedCredentials (TransportRef ?t) (JFn (Joined ?ek)))) ?st5)"
      by (simp add: establishSMTPConnection_def reg miss creds alloc Let_def split_beta)
    have cached: "map_of (connectionCache ?st5) username = Some ?w"
      using connectionCache_set_state [of username ?w ?st4]
      by (simp add: lru_set_head)
    have q5: "callbackQueue ?st5 = callbackQueue ?st1"
      using connectionCache_set_state [of username ?w ?st4] q4 by simp
    show ?thesis
      using ne cached q5
        getSMTPCredentials_frame [of q username credentials
          "JFn (ReceivedCredentials (TransportRef ?t) (JFn (Joined ?ek)))" ?st5 ?ek]
        getSMTPCredentials_frame [of q username credentials
          "JFn (ReceivedCredentials (TransportRef ?t) (JFn (Joined ?ek)))" ?st5 k]
      by (simp add: run)
  qed
qed

text \<open>
  C5. On the leader, for a request that is not forced. If the directory pointer of the
  owner's OperationKey names an online peer, the caller's callback is called with that
  peer's id and the node's state is unchanged. If the pointer names no online peer and is
  not this node's own id, whether it is absent or names a dead node, a fresh assignment is
  run: the request goes out as an \<open>establishSMTPConnection\<close> remote call to the chosen peer,
  or is established locally, and no callback is called in that step. With no other request
  for the owner in flight, the caller is the one waiter of the joined callback and the
  continuation handed to the establishment is \<open>connectionCallback\<close> with that joined
  callback; a local establishment, when none is in flight, caches a connection for the
  owner and has the continuation as its one waiter. When the continuation is called
  without an error it writes the answered node id over the pointer and the joined callback
  answers every waiter with that id and clears the pending record; when it is called with
  an error, the error of the establishment is passed to every waiter and the directory is
  left as it was.
\<close>

theorem ownership_check_on_leader:
  assumes leader: "cluster st LeaderKey = JStr (self_id st)"
    and unforced: "\<not> truthy force"
  shows
    "(truthy (cluster st (ok ''getSMTPConnection'' username))
      \<and> peerOnline st (cluster st (ok ''getSMTPConnection'' username)) \<longrightarrow>
        getSMTPConnection p q username credentials force next st
          = (st, [call next [JNull, cluster st (ok ''getSMTPConnection'' username)]]))
     \<and> (\<not> peerOnline st (cluster st (ok ''getSMTPConnection'' username))
        \<and> cluster st (ok ''getSMTPConnection'' username) \<noteq> JStr (self_id st) \<longrightarrow>
          (\<forall>n. p = Peer n \<longrightarrow>
             getSMTPConnection p q username credentials force next st
               = (snd (callbackQueue_add (ok ''getSMTPConnection'' username) next st),
                  [RemoteCall (JStr n) ''establishSMTPConnection''
                     [JStr username, credentials, JBool True]
                     (JFn (ConnectionCallback (ok ''getSMTPConnection'' username)
                        (fst (callbackQueue_add (ok ''getSMTPConnection'' username) next st))))]))
          \<and> (p = This \<longrightarrow>
             getSMTPConnection p q username credentials force next st
               = establishSMTPConnection q username credentials
                   (JFn (ConnectionCallback (ok ''getSMTPConnection'' username)
                      (fst (callbackQueue_add (ok ''getSMTPConnection'' username) next st))))
                   (snd (callbackQueue_add (ok ''getSMTPConnection'' username) next st)))
          \<and> list_all (\<lambda>e. \<not> is_invoke e)
               (snd (getSMTPConnection p q username credentials force next st))
          \<and> (callbackQueue st (ok ''getSMTPConnection'' username) = None \<longrightarrow>
               fst (callbackQueue_add (ok ''getSMTPConnection'' username) next st)
                 = JFn (Joined (ok ''getSMTPConnection'' username))
               \<and> (\<forall>n. p = Peer n \<longrightarrow>
                    callbackQueue (fst (getSMTPConnection p q username credentials force next st))
                      (ok ''getSMTPConnection'' username) = Some [next])
               \<and> (p = This
                  \<and> callbackQueue st (ok ''establishSMTPConnection'' username) = None
                  \<and> member_of credentials ''provider'' = Some provider \<longrightarrow>
                    callbackQueue (fst (getSMTPConnection p q username credentials force next st))
                      (ok ''getSMTPConnection'' username) = Some [next]
                    \<and> map_of (connectionCache
                          (fst (getSMTPConnection p q username credentials force next st)))
                        username \<noteq> None
                    \<and> callbackQueue (fst (getSMTPConnection p q username credentials force next st))
                        (ok ''establishSMTPConnection'' username)
                      = Some [JFn (ConnectionCallback (ok ''getSMTPConnection'' username)
                                (JFn (Joined (ok ''getSMTPConnection'' username))))])))
     \<and> (callbackQueue s (ok ''getSMTPConnection'' username) = Some waiting \<longrightarrow>
          (\<not> truthy e \<longrightarrow>
             apply_cont (ConnectionCallback (ok ''getSMTPConnection'' username)
                 (JFn (Joined (ok ''getSMTPConnection'' username)))) this [e, nodeId] s
               = (cluster_set (ok ''getSMTPConnection'' username) nodeId s,
                  [Invoke (Joined (ok ''getSMTPConnection'' username)) [JNull, nodeId]])
             \<and> snd (apply_cont (Joined (ok ''getSMTPConnection'' username)) this [JNull, nodeId]
                      (cluster_set (ok ''getSMTPConnection'' username) nodeId s))
                 = map (\<lambda>cb. call cb [JNull, nodeId]) waiting
             \<and> cluster (fst (apply_cont (Joined (ok ''getSMTPConnection'' username)) this
                      [JNull, nodeId] (cluster_set (ok ''getSMTPConnection'' username) nodeId s)))
                   (ok ''getSMTPConnection'' username) = nodeId
             \<and> callbackQueue (fst (apply_cont (Joined (ok ''getSMTPConnection'' username)) this
                      [JNull, nodeId] (cluster_set (ok ''getSMTPConnection'' username) nodeId s)))
                   (ok ''getSMTPConnection'' username) = None)
          \<and> (truthy e \<longrightarrow>
             apply_cont (ConnectionCallback (ok ''getSMTPConnection'' username)
                 (JFn (Joined (ok ''getSMTPConnection'' username)))) this (e # rest) s
               = (s, [Invoke (Joined (ok ''getSMTPConnection'' username)) [e]])
             \<and> snd (apply_cont (Joined (ok ''getSMTPConnection'' username)) this [e] s)
                 = map (\<lambda>cb. call cb [e]) waiting
             \<and> cluster (fst (apply_cont (Joined (ok ''getSMTPConnection'' username)) this [e] s))
                 = cluster s))"
proof -
  let ?k = "ok ''getSMTPConnection'' username"
  let ?ek = "ok ''establishSMTPConnection'' username"
  let ?G = "getSMTPConnection p q username credentials force next st"
  let ?cb = "fst (callbackQueue_add ?k next st)"
  let ?st1 = "snd (callbackQueue_add ?k next st)"
  let ?dead = "\<not> peerOnline st (cluster st ?k) \<and> cluster st ?k \<noteq> JStr (self_id st)"
  have live: "truthy (cluster st ?k) \<and> peerOnline st (cluster st ?k) \<longrightarrow>
                ?G = (st, [call next [JNull, cluster st ?k]])"
    by (simp add: getSMTPConnection_def leader unforced Let_def)
  have assign:
    "?G = (case p of
             Peer n \<Rightarrow>
               (?st1,
                [RemoteCall (JStr n) ''establishSMTPConnection''
                   [JStr username, credentials, JBool True] (JFn (ConnectionCallback ?k ?cb))])
           | This \<Rightarrow>
               establishSMTPConnection q username credentials
                 (JFn (ConnectionCallback ?k ?cb)) ?st1)"
    if ?dead
    using that
    by (simp add: getSMTPConnection_def leader unforced Let_def split_beta split: peer.split)
  have quiet: "list_all (\<lambda>e. \<not> is_invoke e) (snd ?G)" if ?dead
    using assign [OF that] establishSMTPConnection_calls_nothing
    by (cases p) simp_all
  have reg: "?cb = JFn (Joined ?k) \<and> callbackQueue ?st1 = (callbackQueue st)(?k \<mapsto> [next])"
    if "callbackQueue st ?k = None"
    using that by (simp add: callbackQueue_add_def)
  have remote: "callbackQueue (fst ?G) ?k = Some [next]"
    if ?dead and "callbackQueue st ?k = None" and "p = Peer n" for n
    using assign [OF that(1)] reg [OF that(2)] that(3) by simp
  have keys: "?k \<noteq> ?ek" "?k \<noteq> ok ''getSMTPCredentials'' username"
    by (simp_all add: ok_def)
  have local:
    "callbackQueue (fst ?G) ?k = Some [next]
     \<and> map_of (connectionCache (fst ?G)) username \<noteq> None
     \<and> callbackQueue (fst ?G) ?ek = Some [JFn (ConnectionCallback ?k (JFn (Joined ?k)))]"
    if ?dead and "callbackQueue st ?k = None" and "p = This"
      and "callbackQueue st ?ek = None" and "member_of credentials ''provider'' = Some provider"
  proof -
    have run: "?G = establishSMTPConnection q username credentials
                      (JFn (ConnectionCallback ?k (JFn (Joined ?k)))) ?st1"
      using assign [OF that(1)] reg [OF that(2)] that(3) by simp
    have idle: "callbackQueue ?st1 ?ek = None"
      using reg [OF that(2)] that(4) keys by simp
    show ?thesis
      using establishSMTPConnection_state [OF idle that(5), of q
          "JFn (ConnectionCallback ?k (JFn (Joined ?k)))" ?k]
        reg [OF that(2)] keys
      by (simp add: run)
  qed
  have answered:
    "apply_cont (ConnectionCallback ?k (JFn (Joined ?k))) this [e, nodeId] s
       = (cluster_set ?k nodeId s, [Invoke (Joined ?k) [JNull, nodeId]])
     \<and> snd (apply_cont (Joined ?k) this [JNull, nodeId] (cluster_set ?k nodeId s))
         = map (\<lambda>cb. call cb [JNull, nodeId]) waiting
     \<and> cluster (fst (apply_cont (Joined ?k) this [JNull, nodeId] (cluster_set ?k nodeId s))) ?k
         = nodeId
     \<and> callbackQueue (fst (apply_cont (Joined ?k) this [JNull, nodeId]
           (cluster_set ?k nodeId s))) ?k = None"
    if "callbackQueue s ?k = Some waiting" and "\<not> truthy e"
  proof -
    have "callbackQueue (cluster_set ?k nodeId s) ?k = Some waiting"
      using that(1) by (simp add: cluster_set_def)
    from joined_callback_resolves [OF this, of "[JNull, nodeId]"] that(2)
    show ?thesis
      by (simp add: connectionCallback_def arg_def cluster_set_def)
  qed
  have failed:
    "apply_cont (ConnectionCallback ?k (JFn (Joined ?k))) this (e # rest) s
       = (s, [Invoke (Joined ?k) [e]])
     \<and> snd (apply_cont (Joined ?k) this [e] s) = map (\<lambda>cb. call cb [e]) waiting
     \<and> cluster (fst (apply_cont (Joined ?k) this [e] s)) = cluster s"
    if "callbackQueue s ?k = Some waiting" and "truthy e"
    using joined_callback_resolves [OF that(1), of "[e]"] that(2)
    by (simp add: connectionCallback_def arg_def)
  from live assign quiet reg remote local answered failed show ?thesis
    by (cases p) auto
qed

theorem ownership_check_on_leader_witness:
  "getSMTPConnection (Peer ''n2'') This ''u'' yahoo (JBool False) (JFn (Caller 3)) live_owner
     = (live_owner, [Invoke (Caller 3) [JNull, JStr ''n1'']])
   \<and> cluster dead_owner connection_key = JStr ''n9''
   \<and> snd dead_peer
     = [RemoteCall (JStr ''n2'') ''establishSMTPConnection'' [JStr ''u'', yahoo, JBool True]
          (JFn (ConnectionCallback connection_key (JFn (Joined connection_key))))]
   \<and> snd dead_peer_reply = [Invoke (Joined connection_key) [JNull, JStr ''n2'']]
   \<and> snd dead_peer_answered = [Invoke (Caller 3) [JNull, JStr ''n2'']]
   \<and> cluster (fst dead_peer_answered) connection_key = JStr ''n2''
   \<and> map_of (connectionCache (fst dead_local)) ''u'' \<noteq> None
   \<and> callbackQueue (fst dead_local) establish_key
     = Some [JFn (ConnectionCallback connection_key (JFn (Joined connection_key)))]
   \<and> callbackQueue (fst dead_local) connection_key = Some [JFn (Caller 3)]
   \<and> snd dead_local
     = [SetImmediate (JFn (ReceivedCredentials (TransportRef 0) (JFn (Joined establish_key))))
          [picked]]
   \<and> snd dead_local_reply = [Invoke (Joined connection_key) [picked]]
   \<and> snd dead_local_answered = [Invoke (Caller 3) [picked]]
   \<and> cluster (fst dead_local_answered) connection_key = JStr ''n9''"
proof -
  have unforced: "\<not> truthy (JBool False)" by simp
  have leader_live: "cluster live_owner LeaderKey = JStr (self_id live_owner)"
    by code_simp
  have leader_dead: "cluster dead_owner LeaderKey = JStr (self_id dead_owner)"
    by code_simp
  have key: "ok ''getSMTPConnection'' ''u'' = connection_key"
    "ok ''establishSMTPConnection'' ''u'' = establish_key"
    by (simp_all add: connection_key_def establish_key_def)
  have owner_live: "cluster live_owner connection_key = JStr ''n1''"
    by code_simp
  have online: "peerOnline live_owner (JStr ''n1'')"
    by code_simp
  have owner_dead: "cluster dead_owner connection_key = JStr ''n9''"
    by code_simp
  have offline: "\<not> peerOnline dead_owner (JStr ''n9'')"
    by code_simp
  have other: "JStr ''n9'' \<noteq> JStr (self_id dead_owner)"
    by code_simp
  have idle: "callbackQueue dead_owner connection_key = None"
    "callbackQueue dead_owner establish_key = None"
    by code_simp+
  have creds: "member_of yahoo ''provider'' = Some (JStr ''yahoo'')"
    by code_simp
  have ok: "\<not> truthy JNull" by simp
  have err: "truthy picked" by (simp add: picked_def)
  from ownership_check_on_leader [OF leader_live unforced,
      where username = "''u''" and p = "Peer ''n2''" and q = This and credentials = yahoo
        and ?next = "JFn (Caller 3)"]
    owner_live online
  have a: "getSMTPConnection (Peer ''n2'') This ''u'' yahoo (JBool False) (JFn (Caller 3))
             live_owner = (live_owner, [Invoke (Caller 3) [JNull, JStr ''n1'']])"
    by (simp add: key)
  note peer = ownership_check_on_leader [OF leader_dead unforced,
      where username = "''u''" and p = "Peer ''n2''" and q = This and credentials = yahoo
        and ?next = "JFn (Caller 3)" and this = JUndefined
        and s = "fst dead_peer" and waiting = "[JFn (Caller 3)]" and e = JNull
        and nodeId = "JStr ''n2''" and rest = "[]", unfolded key]
  have dead: "\<not> peerOnline dead_owner (cluster dead_owner connection_key)
              \<and> cluster dead_owner connection_key \<noteq> JStr (self_id dead_owner)"
    using owner_dead offline other by simp
  from peer dead idle(1)
  have b0: "getSMTPConnection (Peer ''n2'') This ''u'' yahoo (JBool False) (JFn (Caller 3))
              dead_owner
            = (snd (callbackQueue_add connection_key (JFn (Caller 3)) dead_owner),
               [RemoteCall (JStr ''n2'') ''establishSMTPConnection''
                  [JStr ''u'', yahoo, JBool True]
                  (JFn (ConnectionCallback connection_key
                     (fst (callbackQueue_add connection_key (JFn (Caller 3)) dead_owner))))])"
    and b1: "fst (callbackQueue_add connection_key (JFn (Caller 3)) dead_owner)
              = JFn (Joined connection_key)"
    and b': "callbackQueue (fst (getSMTPConnection (Peer ''n2'') This ''u'' yahoo (JBool False)
               (JFn (Caller 3)) dead_owner)) connection_key = Some [JFn (Caller 3)]"
    by blast+
  have b: "snd dead_peer
             = [RemoteCall (JStr ''n2'') ''establishSMTPConnection'' [JStr ''u'', yahoo, JBool True]
                  (JFn (ConnectionCallback connection_key (JFn (Joined connection_key))))]"
    by (simp add: dead_peer_def b0 b1)
  have b'': "callbackQueue (fst dead_peer) connection_key = Some [JFn (Caller 3)]"
    unfolding dead_peer_def using b' by blast
  from peer b'' ok
  have c: "snd dead_peer_reply = [Invoke (Joined connection_key) [JNull, JStr ''n2'']]"
    and c': "fst dead_peer_reply = cluster_set connection_key (JStr ''n2'') (fst dead_peer)"
    and d0: "snd (apply_cont (Joined connection_key) JUndefined [JNull, JStr ''n2'']
                   (cluster_set connection_key (JStr ''n2'') (fst dead_peer)))
               = [Invoke (Caller 3) [JNull, JStr ''n2'']]"
    and e0: "cluster (fst (apply_cont (Joined connection_key) JUndefined [JNull, JStr ''n2'']
                   (cluster_set connection_key (JStr ''n2'') (fst dead_peer)))) connection_key
               = JStr ''n2''"
    by (simp_all add: dead_peer_reply_def)
  have d: "snd dead_peer_answered = [Invoke (Caller 3) [JNull, JStr ''n2'']]"
    and e: "cluster (fst dead_peer_answered) connection_key = JStr ''n2''"
    using d0 e0 by (simp_all add: dead_peer_answered_def c')
  note local = ownership_check_on_leader [OF leader_dead unforced,
      where username = "''u''" and p = This and q = This and credentials = yahoo
        and ?next = "JFn (Caller 3)" and this = JUndefined and provider = "JStr ''yahoo''"
        and s = "fst dead_local_established" and waiting = "[JFn (Caller 3)]"
        and e = picked and nodeId = JUndefined and rest = "[]", unfolded key]
  from local dead idle creds
  have f0: "map_of (connectionCache (fst (getSMTPConnection This This ''u'' yahoo (JBool False)
              (JFn (Caller 3)) dead_owner))) ''u'' \<noteq> None"
    and g0: "callbackQueue (fst (getSMTPConnection This This ''u'' yahoo (JBool False)
              (JFn (Caller 3)) dead_owner)) establish_key
              = Some [JFn (ConnectionCallback connection_key (JFn (Joined connection_key)))]"
    and h0: "callbackQueue (fst (getSMTPConnection This This ''u'' yahoo (JBool False)
              (JFn (Caller 3)) dead_owner)) connection_key = Some [JFn (Caller 3)]"
    by blast+
  have f: "map_of (connectionCache (fst dead_local)) ''u'' \<noteq> None"
    and g: "callbackQueue (fst dead_local) establish_key
              = Some [JFn (ConnectionCallback connection_key (JFn (Joined connection_key)))]"
    and h: "callbackQueue (fst dead_local) connection_key = Some [JFn (Caller 3)]"
    unfolding dead_local_def using f0 g0 h0 by blast+
  have i: "snd dead_local
             = [SetImmediate (JFn (ReceivedCredentials (TransportRef 0) (JFn (Joined establish_key))))
                  [picked]]"
    by code_simp
  have waiting: "callbackQueue (fst dead_local_established) connection_key = Some [JFn (Caller 3)]"
    by code_simp
  have stale: "cluster (fst dead_local_established) connection_key = JStr ''n9''"
    by code_simp
  from local waiting err
  have j: "snd dead_local_reply = [Invoke (Joined connection_key) [picked]]"
    and j': "fst dead_local_reply = fst dead_local_established"
    and k: "snd (apply_cont (Joined connection_key) JUndefined [picked]
                  (fst dead_local_established)) = [Invoke (Caller 3) [picked]]"
    and l: "cluster (fst (apply_cont (Joined connection_key) JUndefined [picked]
                  (fst dead_local_established))) = cluster (fst dead_local_established)"
    by (simp_all add: dead_local_reply_def)
  have m: "snd dead_local_answered = [Invoke (Caller 3) [picked]]"
    and n: "cluster (fst dead_local_answered) connection_key = JStr ''n9''"
    using k l stale by (simp_all add: dead_local_answered_def j')
  from a owner_dead b c d e f g h i j m n show ?thesis by simp
qed

end
